theory Spec2Isabelle
  imports Complex_Main "HOL-Library.Word"
begin

section \<open>Values of the program\<close>

text \<open>
  A JavaScript string is a sequence of UTF-16 code units. \<open>lit\<close> writes an ASCII
  literal of the source as such a sequence.
\<close>

type_synonym js_string = "16 word list"

definition lit :: "string \<Rightarrow> js_string" where
  "lit s = map of_char s"

text \<open>
  \<open>String.prototype.trim\<close> removes the code units of the ECMAScript productions
  WhiteSpace (TAB, VT, FF, ZWNBSP and the space separators) and LineTerminator
  (LF, CR, LS, PS) from both ends.
\<close>

definition white_space :: "16 word \<Rightarrow> bool" where
  "white_space c \<longleftrightarrow>
     c = 0x9 \<or> c = 0xA \<or> c = 0xB \<or> c = 0xC \<or> c = 0xD \<or> c = 0x20 \<or> c = 0xA0 \<or>
     c = 0x1680 \<or> (0x2000 \<le> c \<and> c \<le> 0x200A) \<or> c = 0x2028 \<or> c = 0x2029 \<or>
     c = 0x202F \<or> c = 0x205F \<or> c = 0x3000 \<or> c = 0xFEFF"

definition trim :: "js_string \<Rightarrow> js_string" where
  "trim s = rev (dropWhile white_space (rev (dropWhile white_space s)))"

text \<open>
  \<open>encodeURIComponent\<close> throws a URIError on a string with an unpaired surrogate
  and returns otherwise.
\<close>

definition lead_surrogate :: "16 word \<Rightarrow> bool" where
  "lead_surrogate c \<longleftrightarrow> 0xD800 \<le> c \<and> c \<le> 0xDBFF"

definition trail_surrogate :: "16 word \<Rightarrow> bool" where
  "trail_surrogate c \<longleftrightarrow> 0xDC00 \<le> c \<and> c \<le> 0xDFFF"

fun encodable :: "js_string \<Rightarrow> bool" where
  "encodable [] = True"
| "encodable [c] = (\<not> lead_surrogate c \<and> \<not> trail_surrogate c)"
| "encodable (c # d # cs) =
     (if lead_surrogate c then trail_surrogate d \<and> encodable cs
      else \<not> trail_surrogate c \<and> encodable (d # cs))"

text \<open>
  A thrown value, as far as \<open>isAbortError\<close> looks at it: a DOMException with its
  name; any other object, with its \<open>name\<close> property when it has one that is a
  string; or a value that is not an object.
\<close>

datatype js_error =
    DOMException js_string
  | ObjectError "js_string option"
  | Primitive

fun isAbortError :: "js_error \<Rightarrow> bool" where
  "isAbortError (DOMException n) = (n = lit ''AbortError'')"
| "isAbortError (ObjectError (Some n)) = (n = lit ''AbortError'')"
| "isAbortError (ObjectError None) = False"
| "isAbortError Primitive = False"

text \<open>The errors the program and the platform raise.\<close>

definition abort_reason :: js_error where
  "abort_reason = DOMException (lit ''AbortError'')"

definition http_error :: js_error where
  "http_error = ObjectError (Some (lit ''Error''))"

definition type_error :: js_error where
  "type_error = ObjectError (Some (lit ''TypeError''))"

definition uri_error :: js_error where
  "uri_error = ObjectError (Some (lit ''URIError''))"

definition syntax_error :: js_error where
  "syntax_error = ObjectError (Some (lit ''SyntaxError''))"

text \<open>
  The two messages of \<open>setError\<close>, as UTF-16 code units: the literal of
  \<open>fetchSuggestions\<close> (city search failed, retry later) and the literal of
  \<open>fetchWeather\<close> (weather data could not be fetched, retry later).
\<close>

definition search_failed :: js_string where
  "search_failed =
     [0x57CE, 0x5E02, 0x641C, 0x7D22, 0x5931, 0x8D25, 0xFF0C, 0x8BF7, 0x7A0D, 0x540E,
      0x91CD, 0x8BD5]"

definition weather_failed :: js_string where
  "weather_failed =
     [0x5929, 0x6C14, 0x6570, 0x636E, 0x83B7, 0x53D6, 0x5931, 0x8D25, 0xFF0C, 0x8BF7,
      0x7A0D, 0x540E, 0x91CD, 0x8BD5]"

section \<open>Data model\<close>

text \<open>
  Numbers reach the program through JSON only, so they are never NaN and \<open>===\<close> on
  them is equality of their values.
\<close>

record City =
  name :: js_string
  country :: "js_string option"
  latitude :: real
  longitude :: real

record GeocodingResponse =
  results :: "City list option"

record current_weather =
  temperature :: real
  windspeed :: real
  winddirection :: real
  time_of :: js_string

record hourly_series =
  time :: "js_string list"
  temperature_2m :: "real list"
  relativehumidity_2m :: "real list"

record WeatherData =
  current :: "current_weather option"
  hourly :: "hourly_series option"

text \<open>
  The body of a forecast response (\<open>data\<close> in \<open>fetchWeather\<close>): either property
  may be missing, and reading a property of a missing one throws a TypeError.
\<close>

record forecast =
  data_current_weather :: "current_weather option"
  data_hourly :: "hourly_series option"

text \<open>
  A value that \<open>JSON.parse\<close> returns: null, a boolean, a number, a string, an array,
  or an object with its properties in the order of the text (when a name is repeated,
  the last one counts). A property read yields a value or \<open>undefined\<close>, which is
  \<open>None\<close> here.
\<close>

datatype json =
    JNull
  | JBool bool
  | JNumber real
  | JString js_string
  | JArray "json list"
  | JObject "(js_string \<times> json) list"

text \<open>
  The text stored under a key of \<open>localStorage\<close>, by what \<open>getItem\<close> and
  \<open>JSON.parse\<close> make of it: \<open>getItem\<close> returns null (\<open>Missing\<close>), the empty
  string (\<open>EmptyText\<close>), a text on which \<open>JSON.parse\<close> throws (\<open>Malformed\<close>), or
  a text that \<open>JSON.parse\<close> turns into a value (\<open>Json\<close>). The store as the
  platform has it holds a \<open>json item\<close> under each key: any JSON value at all. A
  \<open>City list item\<close> or a \<open>City item\<close> stands for a stored text whose value, if it
  has one, is of the type the program expects under that key; \<open>JSON.stringify\<close> of a
  list of cities or of a city yields such a text.
\<close>

datatype 'a item = Missing | EmptyText | Malformed | Json 'a

fun truthy :: "'a item \<Rightarrow> bool" where
  "truthy Missing = False"
| "truthy EmptyText = False"
| "truthy Malformed = True"
| "truthy (Json v) = True"

fun JSON_parse :: "json item \<Rightarrow> js_error + json" where
  "JSON_parse (Json v) = Inr v"
| "JSON_parse Missing = Inl syntax_error"
| "JSON_parse EmptyText = Inl syntax_error"
| "JSON_parse Malformed = Inl syntax_error"

text \<open>
  The JSON value of a city, as \<open>JSON.stringify\<close> writes it (an absent country is left
  out), and of a list of cities; and the city or the list of cities that a JSON value
  is, when it is of that type: an object whose \<open>name\<close> is a string, whose
  \<open>latitude\<close> and \<open>longitude\<close> are numbers and whose \<open>country\<close> is a string or
  absent, and an array of such objects.
\<close>

definition field :: "json \<Rightarrow> js_string \<Rightarrow> json option" where
  "field v p = (case v of JObject kvs \<Rightarrow> map_of (rev kvs) p | _ \<Rightarrow> None)"

definition city_json :: "City \<Rightarrow> json" where
  "city_json c =
     JObject
       ([(lit ''name'', JString (name c))] @
        (case country c of None \<Rightarrow> [] | Some k \<Rightarrow> [(lit ''country'', JString k)]) @
        [(lit ''latitude'', JNumber (latitude c)), (lit ''longitude'', JNumber (longitude c))])"

definition cities_json :: "City list \<Rightarrow> json" where
  "cities_json cs = JArray (map city_json cs)"

definition as_city :: "json \<Rightarrow> City option" where
  "as_city v =
     (case (field v (lit ''name''), field v (lit ''latitude''), field v (lit ''longitude'')) of
        (Some (JString n), Some (JNumber a), Some (JNumber b)) \<Rightarrow>
          (case field v (lit ''country'') of
             None \<Rightarrow> Some \<lparr>name = n, country = None, latitude = a, longitude = b\<rparr>
           | Some (JString k) \<Rightarrow> Some \<lparr>name = n, country = Some k, latitude = a, longitude = b\<rparr>
           | Some _ \<Rightarrow> None)
      | _ \<Rightarrow> None)"

definition as_cities :: "json \<Rightarrow> City list option" where
  "as_cities v = (case v of JArray vs \<Rightarrow> those (map as_city vs) | _ \<Rightarrow> None)"

text \<open>A stored text as a text of the expected type, when it is one.\<close>

fun expected :: "(json \<Rightarrow> 'a option) \<Rightarrow> json item \<Rightarrow> 'a item option" where
  "expected dec Missing = Some Missing"
| "expected dec EmptyText = Some EmptyText"
| "expected dec Malformed = Some Malformed"
| "expected dec (Json v) = map_option Json (dec v)"

text \<open>
  A network request that has been issued and not yet settled: the AbortController it
  was issued with, what it asks for (with the arguments its continuation closes
  over), and the \<open>await\<close> at which the function is suspended.
\<close>

datatype request_kind = Geocoding js_string | Forecast City

datatype phase = AwaitFetch | AwaitJson

record request =
  rid :: nat
  rkind :: request_kind
  rphase :: phase

text \<open>A timer armed by \<open>window.setTimeout\<close>: its handle, when it is due, and the
  argument of the \<open>fetchSuggestions\<close> call in its callback.\<close>

record timer =
  handle :: nat
  due :: nat
  arg :: js_string

text \<open>
  The state: the eight state variables of \<open>App\<close>, its three refs, and the platform
  the component talks to: the two keys of \<open>localStorage\<close> (\<open>miniapp:favorites\<close>,
  \<open>miniapp:lastCity\<close>), the AbortControllers created so far (numbered from 0) and
  those aborted, the requests in flight, every network call made (oldest first), the
  armed timers, the last timer handle handed out, and the time. A state holds values
  of the types the program declares; the two keys hold texts of the expected types
  (what the start-up does over any stored JSON is \<open>startup\<close> below).
\<close>

record state =
  query :: js_string
  suggestions :: "City list"
  selectedCity :: "City option"
  favorites :: "City list"
  weather :: "WeatherData option"
  loading :: bool
  loadingSuggest :: bool
  error :: "js_string option"
  suggestAbortRef :: "nat option"
  weatherAbortRef :: "nat option"
  debounceRef :: "nat option"
  stored_favorites :: "City list item"
  stored_lastCity :: "City item"
  controllers :: nat
  aborted :: "nat set"
  pending :: "request list"
  calls :: "request_kind list"
  timers :: "timer list"
  handles :: nat
  clock :: nat

section \<open>Favorites\<close>

text \<open>The predicate of \<open>hasFavorited\<close> and \<open>toggleFavorite\<close> on an entry \<open>c\<close>.\<close>

definition same_city :: "City \<Rightarrow> City \<Rightarrow> bool" where
  "same_city selected c \<longleftrightarrow>
     latitude c = latitude selected \<and> longitude c = longitude selected \<and> name c = name selected"

definition hasFavorited :: "state \<Rightarrow> bool" where
  "hasFavorited s =
     (case selectedCity s of
        None \<Rightarrow> False
      | Some selected \<Rightarrow> list_ex (same_city selected) (favorites s))"

text \<open>
  \<open>saveFavorites\<close>: \<open>accepted\<close> tells whether \<open>localStorage.setItem\<close> returns; when
  it throws, the error is caught and ignored.
\<close>

definition saveFavorites :: "bool \<Rightarrow> City list \<Rightarrow> state \<Rightarrow> state" where
  "saveFavorites accepted next s =
     (let s1 = s\<lparr>favorites := next\<rparr>
      in if accepted then s1\<lparr>stored_favorites := Json next\<rparr> else s1)"

definition toggleFavorite :: "bool \<Rightarrow> state \<Rightarrow> state" where
  "toggleFavorite accepted s =
     (case selectedCity s of
        None \<Rightarrow> s
      | Some selected \<Rightarrow>
          if hasFavorited s
          then saveFavorites accepted (filter (\<lambda>c. \<not> same_city selected c) (favorites s)) s
          else saveFavorites accepted (take 20 (selected # favorites s)) s)"

section \<open>Requests\<close>

definition abort :: "nat option \<Rightarrow> state \<Rightarrow> state" where
  "abort r s = (case r of None \<Rightarrow> s | Some c \<Rightarrow> s\<lparr>aborted := insert c (aborted s)\<rparr>)"

definition issue :: "nat \<Rightarrow> request_kind \<Rightarrow> state \<Rightarrow> state" where
  "issue c k s =
     s\<lparr>calls := calls s @ [k],
       pending := pending s @ [\<lparr>rid = c, rkind = k, rphase = AwaitFetch\<rparr>]\<rparr>"

definition settle :: "nat \<Rightarrow> state \<Rightarrow> state" where
  "settle i s = s\<lparr>pending := filter (\<lambda>r. rid r \<noteq> i) (pending s)\<rparr>"

definition advance :: "nat \<Rightarrow> state \<Rightarrow> state" where
  "advance i s =
     s\<lparr>pending := map (\<lambda>r. if rid r = i then r\<lparr>rphase := AwaitJson\<rparr> else r) (pending s)\<rparr>"

subsection \<open>fetchSuggestions\<close>

definition suggest_catch :: "js_error \<Rightarrow> state \<Rightarrow> state" where
  "suggest_catch e s = (if \<not> isAbortError e then s\<lparr>error := Some search_failed\<rparr> else s)"

definition suggest_finally :: "state \<Rightarrow> state" where
  "suggest_finally s = s\<lparr>loadingSuggest := False\<rparr>"

text \<open>The function up to its first \<open>await\<close>.\<close>

definition fetchSuggestions :: "js_string \<Rightarrow> state \<Rightarrow> state" where
  "fetchSuggestions nm s =
     (if trim nm = [] then s\<lparr>suggestions := []\<rparr>
      else
        let s0 = (if loadingSuggest s then s\<lparr>loadingSuggest := False\<rparr> else s);
            s1 = s0\<lparr>loadingSuggest := True\<rparr>;
            s2 = abort (suggestAbortRef s1) s1;
            c = controllers s2;
            s3 = s2\<lparr>controllers := Suc c, suggestAbortRef := Some c\<rparr>
        in if encodable nm then issue c (Geocoding nm) s3
           else suggest_finally (suggest_catch uri_error s3))"

text \<open>The continuations: \<open>fetch\<close> resolved with \<open>res.ok\<close> as given; \<open>res.json()\<close>
  resolved; either promise rejected.\<close>

definition suggest_response :: "nat \<Rightarrow> bool \<Rightarrow> state \<Rightarrow> state" where
  "suggest_response i ok s =
     (if ok then advance i s
      else suggest_finally (suggest_catch http_error (settle i s)))"

definition suggest_json :: "nat \<Rightarrow> GeocodingResponse \<Rightarrow> state \<Rightarrow> state" where
  "suggest_json i data s =
     (let list = (case results data of
                    Some rs \<Rightarrow>
                      map (\<lambda>r. \<lparr>name = name r, country = country r,
                                latitude = latitude r, longitude = longitude r\<rparr>) rs
                  | None \<Rightarrow> [])
      in suggest_finally ((settle i s)\<lparr>suggestions := list\<rparr>))"

definition suggest_rejected :: "nat \<Rightarrow> js_error \<Rightarrow> state \<Rightarrow> state" where
  "suggest_rejected i e s = suggest_finally (suggest_catch e (settle i s))"

subsection \<open>fetchWeather\<close>

definition weather_catch :: "js_error \<Rightarrow> state \<Rightarrow> state" where
  "weather_catch e s = (if \<not> isAbortError e then s\<lparr>error := Some weather_failed\<rparr> else s)"

definition weather_finally :: "state \<Rightarrow> state" where
  "weather_finally s = s\<lparr>loading := False\<rparr>"

definition fetchWeather :: "City \<Rightarrow> state \<Rightarrow> state" where
  "fetchWeather city s =
     (let s1 = s\<lparr>weather := None, loading := True, error := None\<rparr>;
          s2 = abort (weatherAbortRef s1) s1;
          c = controllers s2;
          s3 = s2\<lparr>controllers := Suc c, weatherAbortRef := Some c\<rparr>
      in issue c (Forecast city) s3)"

definition hourlySlice :: "hourly_series \<Rightarrow> hourly_series" where
  "hourlySlice h =
     (let next24IdxEnd = min 24 (length (time h))
      in \<lparr>time = take next24IdxEnd (time h),
          temperature_2m = take next24IdxEnd (temperature_2m h),
          relativehumidity_2m = take next24IdxEnd (relativehumidity_2m h)\<rparr>)"

definition weather_response :: "nat \<Rightarrow> bool \<Rightarrow> state \<Rightarrow> state" where
  "weather_response i ok s =
     (if ok then advance i s
      else weather_finally (weather_catch http_error (settle i s)))"

text \<open>\<open>accepted\<close>: whether \<open>localStorage.setItem\<close> of the last city returns.\<close>

definition weather_json :: "nat \<Rightarrow> City \<Rightarrow> forecast \<Rightarrow> bool \<Rightarrow> state \<Rightarrow> state" where
  "weather_json i city data accepted s =
     weather_finally
       (case data_hourly data of
          None \<Rightarrow> weather_catch type_error (settle i s)
        | Some h \<Rightarrow>
            (case data_current_weather data of
               None \<Rightarrow> weather_catch type_error (settle i s)
             | Some cur \<Rightarrow>
                 let s1 = (settle i s)\<lparr>weather :=
                            Some \<lparr>current = Some \<lparr>temperature = temperature cur,
                                                  windspeed = windspeed cur,
                                                  winddirection = winddirection cur,
                                                  time_of = time_of cur\<rparr>,
                                  hourly = Some (hourlySlice h)\<rparr>\<rparr>
                 in if accepted then s1\<lparr>stored_lastCity := Json city\<rparr> else s1))"

definition weather_rejected :: "nat \<Rightarrow> js_error \<Rightarrow> state \<Rightarrow> state" where
  "weather_rejected i e s = weather_finally (weather_catch e (settle i s))"

section \<open>Input, selection, start-up\<close>

text \<open>Taking a timer off the platform's list: what \<open>window.clearTimeout\<close> does, and
  what the platform does with a timer that fires.\<close>

definition drop_timer :: "nat \<Rightarrow> state \<Rightarrow> state" where
  "drop_timer t s = s\<lparr>timers := filter (\<lambda>x. handle x \<noteq> t) (timers s)\<rparr>"

definition clearTimeout :: "nat \<Rightarrow> state \<Rightarrow> state" where
  "clearTimeout t s = drop_timer t s"

definition onQueryChange :: "js_string \<Rightarrow> state \<Rightarrow> state" where
  "onQueryChange v s =
     (let s1 = s\<lparr>query := v, error := None, suggestions := []\<rparr>;
          s2 = (case debounceRef s1 of
                  None \<Rightarrow> s1
                | Some t \<Rightarrow> if t \<noteq> 0 then clearTimeout t s1 else s1);
          t' = Suc (handles s2)
      in s2\<lparr>handles := t',
            timers := timers s2 @ [\<lparr>handle = t', due = clock s2 + 300, arg = v\<rparr>],
            debounceRef := Some t'\<rparr>)"

definition selectCity :: "City \<Rightarrow> state \<Rightarrow> state" where
  "selectCity city s =
     s\<lparr>selectedCity := Some city,
       query := name city @
         (case country city of
            None \<Rightarrow> []
          | Some k \<Rightarrow> if k \<noteq> [] then lit '' ('' @ k @ lit '')'' else []),
       suggestions := []\<rparr>"

text \<open>The effect on \<open>[selectedCity]\<close>; React runs it after a render in which
  \<open>selectedCity\<close> is another value than in the render before.\<close>

definition selectedCity_effect :: "state \<Rightarrow> state" where
  "selectedCity_effect s =
     (case selectedCity s of None \<Rightarrow> s | Some city \<Rightarrow> fetchWeather city s)"

text \<open>\<open>ignoreError\<close> stringifies the error inside a \<open>try\<close> of its own and
  returns.\<close>

definition ignoreError :: "js_error \<Rightarrow> 'a \<Rightarrow> 'a" where
  "ignoreError e x = x"

text \<open>
  What the mount effect passes to \<open>setFavorites\<close> and to \<open>setSelectedCity\<close>, when it
  calls them: whatever \<open>JSON.parse\<close> returned. The \<open>try\<close> block yields this and the
  error it throws, if any; the \<open>catch\<close> ignores the error.
\<close>

record installed =
  new_favorites :: "json option"
  new_selectedCity :: "json option"

definition restore_try :: "json item \<Rightarrow> json item \<Rightarrow> installed \<times> js_error option" where
  "restore_try favRaw lastCityRaw =
     (case (if truthy favRaw
            then (case JSON_parse favRaw of Inl e \<Rightarrow> Inl e | Inr v \<Rightarrow> Inr (Some v))
            else Inr None) of
        Inl e \<Rightarrow> (\<lparr>new_favorites = None, new_selectedCity = None\<rparr>, Some e)
      | Inr f \<Rightarrow>
          if truthy lastCityRaw
          then (case JSON_parse lastCityRaw of
                  Inl e \<Rightarrow> (\<lparr>new_favorites = f, new_selectedCity = None\<rparr>, Some e)
                | Inr city \<Rightarrow> (\<lparr>new_favorites = f, new_selectedCity = Some city\<rparr>, None))
          else (\<lparr>new_favorites = f, new_selectedCity = None\<rparr>, None))"

definition restore :: "json item \<Rightarrow> json item \<Rightarrow> installed" where
  "restore favRaw lastCityRaw =
     (case restore_try favRaw lastCityRaw of
        (i, None) \<Rightarrow> i
      | (i, Some e) \<Rightarrow> ignoreError e i)"

text \<open>The values of \<open>favorites\<close> and \<open>selectedCity\<close> in the render after the mount
  effect: the initial \<open>[]\<close> and \<open>null\<close> where the setter was not called.\<close>

definition favorites_value :: "installed \<Rightarrow> json" where
  "favorites_value i = (case new_favorites i of None \<Rightarrow> JArray [] | Some v \<Rightarrow> v)"

definition selectedCity_value :: "installed \<Rightarrow> json" where
  "selectedCity_value i = (case new_selectedCity i of None \<Rightarrow> JNull | Some v \<Rightarrow> v)"

subsection \<open>The render after the mount effect\<close>

text \<open>
  The render reads \<open>favorites\<close> and \<open>selectedCity\<close> with no check of their type, and
  an error thrown while rendering takes the whole component down. What JavaScript and
  React do with a JSON value where the render uses one: its truthiness; \<open>===\<close> on two
  property values (two objects or arrays from two calls of \<open>JSON.parse\<close> are never
  the same); whether a template literal converts it to a string without throwing (an
  object with a property \<open>toString\<close> of its own has no callable conversion); and
  whether React accepts it as a child (it throws on an object that is not an element).
\<close>

fun truthy_value :: "json \<Rightarrow> bool" where
  "truthy_value JNull = False"
| "truthy_value (JBool b) = b"
| "truthy_value (JNumber n) = (n \<noteq> 0)"
| "truthy_value (JString s) = (s \<noteq> [])"
| "truthy_value (JArray vs) = True"
| "truthy_value (JObject kvs) = True"

fun strict_eq :: "json option \<Rightarrow> json option \<Rightarrow> bool" where
  "strict_eq None None = True"
| "strict_eq (Some JNull) (Some JNull) = True"
| "strict_eq (Some (JBool a)) (Some (JBool b)) = (a = b)"
| "strict_eq (Some (JNumber a)) (Some (JNumber b)) = (a = b)"
| "strict_eq (Some (JString a)) (Some (JString b)) = (a = b)"
| "strict_eq x y = False"

fun stringifies :: "json \<Rightarrow> bool" where
  "stringifies (JArray vs) = (\<forall>v \<in> set vs. stringifies v)"
| "stringifies (JObject kvs) = (lit ''toString'' \<notin> fst ` set kvs)"
| "stringifies v = True"

fun renders :: "json \<Rightarrow> bool" where
  "renders (JArray vs) = (\<forall>v \<in> set vs. renders v)"
| "renders (JObject kvs) = False"
| "renders v = True"

text \<open>The same for the value of a property, which may be \<open>undefined\<close>; and whether it
  is a number, so that \<open>toFixed\<close> can be called on it.\<close>

definition truthy_prop :: "json option \<Rightarrow> bool" where
  "truthy_prop p = (case p of None \<Rightarrow> False | Some v \<Rightarrow> truthy_value v)"

definition stringifies_prop :: "json option \<Rightarrow> bool" where
  "stringifies_prop p = (case p of None \<Rightarrow> True | Some v \<Rightarrow> stringifies v)"

definition renders_prop :: "json option \<Rightarrow> bool" where
  "renders_prop p = (case p of None \<Rightarrow> True | Some v \<Rightarrow> renders v)"

definition is_number :: "json option \<Rightarrow> bool" where
  "is_number p = (case p of Some (JNumber n) \<Rightarrow> True | _ \<Rightarrow> False)"

text \<open>
  \<open>hasFavorited\<close>: with a truthy \<open>selectedCity\<close> it calls \<open>favorites.some\<close>, which is
  no function unless \<open>favorites\<close> is an array; on an array the callback reads the
  properties of each entry up to the first that matches, and reading a property of
  null throws.
\<close>

definition same_entry :: "json \<Rightarrow> json \<Rightarrow> bool" where
  "same_entry sel c \<longleftrightarrow>
     strict_eq (field c (lit ''latitude'')) (field sel (lit ''latitude'')) \<and>
     strict_eq (field c (lit ''longitude'')) (field sel (lit ''longitude'')) \<and>
     strict_eq (field c (lit ''name'')) (field sel (lit ''name''))"

fun some_throws :: "json \<Rightarrow> json list \<Rightarrow> bool" where
  "some_throws sel [] = False"
| "some_throws sel (c # cs) =
     (if c = JNull then True else if same_entry sel c then False else some_throws sel cs)"

definition hasFavorited_throws :: "json \<Rightarrow> json \<Rightarrow> bool" where
  "hasFavorited_throws fav sel \<longleftrightarrow>
     truthy_value sel \<and> (case fav of JArray cs \<Rightarrow> some_throws sel cs | _ \<Rightarrow> True)"

text \<open>
  The list of favorites: \<open>!favorites.length\<close> throws on null; where the length is
  truthy, \<open>favorites.map\<close> is called, which is no function unless \<open>favorites\<close> is an
  array. For an entry \<open>c\<close> of the array the callback builds the key from \<open>c.name\<close>,
  \<open>c.latitude\<close> and \<open>c.longitude\<close> and renders \<open>c.name\<close> and, if it is truthy,
  \<open>c.country\<close> in a template literal.
\<close>

definition favorite_throws :: "json \<Rightarrow> bool" where
  "favorite_throws c \<longleftrightarrow>
     c = JNull \<or>
     \<not> stringifies_prop (field c (lit ''name'')) \<or>
     \<not> stringifies_prop (field c (lit ''latitude'')) \<or>
     \<not> stringifies_prop (field c (lit ''longitude'')) \<or>
     \<not> renders_prop (field c (lit ''name'')) \<or>
     (truthy_prop (field c (lit ''country'')) \<and> \<not> stringifies_prop (field c (lit ''country'')))"

definition favorites_list_throws :: "json \<Rightarrow> bool" where
  "favorites_list_throws fav =
     (case fav of
        JNull \<Rightarrow> True
      | JBool b \<Rightarrow> False
      | JNumber n \<Rightarrow> False
      | JString s \<Rightarrow> s \<noteq> []
      | JArray cs \<Rightarrow> list_ex favorite_throws cs
      | JObject kvs \<Rightarrow> truthy_prop (field fav (lit ''length'')))"

text \<open>
  The block on the selected city, rendered when \<open>selectedCity\<close> is truthy: its name
  as a child, its country, if truthy, in a template literal, and \<open>toFixed\<close> called on
  its latitude and its longitude. A falsy \<open>selectedCity\<close> is itself the child, and
  renders.
\<close>

definition selected_throws :: "json \<Rightarrow> bool" where
  "selected_throws sel \<longleftrightarrow>
     truthy_value sel \<and>
     (\<not> renders_prop (field sel (lit ''name'')) \<or>
      (truthy_prop (field sel (lit ''country'')) \<and>
       \<not> stringifies_prop (field sel (lit ''country''))) \<or>
      \<not> is_number (field sel (lit ''latitude'')) \<or>
      \<not> is_number (field sel (lit ''longitude'')))"

definition render_throws :: "json \<Rightarrow> json \<Rightarrow> bool" where
  "render_throws fav sel \<longleftrightarrow>
     hasFavorited_throws fav sel \<or> favorites_list_throws fav \<or> selected_throws sel"

subsection \<open>Start-up\<close>

text \<open>The state of the first render, with the contents of the two keys.\<close>

definition boot :: "City list item \<Rightarrow> City item \<Rightarrow> state" where
  "boot fav lc =
     \<lparr>query = [], suggestions = [], selectedCity = None, favorites = [], weather = None,
      loading = False, loadingSuggest = False, error = None,
      suggestAbortRef = None, weatherAbortRef = None, debounceRef = None,
      stored_favorites = fav, stored_lastCity = lc,
      controllers = 0, aborted = {}, pending = [], calls = [], timers = [],
      handles = 0, clock = 0\<rparr>"

text \<open>The state after the mount effect, when the values it installed are of the
  expected types.\<close>

definition installed_state :: "City list item \<Rightarrow> City item \<Rightarrow> installed \<Rightarrow> state option" where
  "installed_state fav lc i =
     (case (case new_favorites i of None \<Rightarrow> Some [] | Some v \<Rightarrow> as_cities v) of
        None \<Rightarrow> None
      | Some cs \<Rightarrow>
          (case (case new_selectedCity i of
                   None \<Rightarrow> Some None
                 | Some v \<Rightarrow> map_option Some (as_city v)) of
             None \<Rightarrow> None
           | Some sel \<Rightarrow> Some ((boot fav lc)\<lparr>favorites := cs, selectedCity := sel\<rparr>)))"

text \<open>
  How the start-up ends, over any contents of the two keys: the mount effect runs and
  the component renders again with what the effect installed. If that render throws,
  the component is gone (\<open>Crashed\<close>). If it does not, and the store and the
  component hold values of the expected types, the component is mounted in a state of
  this theory, after the effect on \<open>[selectedCity]\<close> (the first render has no
  selected city, so any restored city is a change). Otherwise the component is up with
  a value of another type in it or in the store (\<open>Untyped\<close>), and this theory does not
  follow it further.
\<close>

datatype outcome = Mounted state | Crashed | Untyped

definition startup :: "json item \<Rightarrow> json item \<Rightarrow> outcome" where
  "startup favRaw lastCityRaw =
     (let i = restore favRaw lastCityRaw
      in if render_throws (favorites_value i) (selectedCity_value i) then Crashed
         else (case (expected as_cities favRaw, expected as_city lastCityRaw) of
                 (Some fav, Some lc) \<Rightarrow>
                   (case installed_state fav lc i of
                      Some s \<Rightarrow> Mounted (selectedCity_effect s)
                    | None \<Rightarrow> Untyped)
               | _ \<Rightarrow> Untyped))"

text \<open>
  Mounting over stored texts of the expected types: the state in which the start-up
  leaves the component. (On such texts the start-up always mounts it, as shown
  below.)
\<close>

definition mount :: "City list item \<Rightarrow> City item \<Rightarrow> state" where
  "mount fav lc =
     (case startup (map_item cities_json fav) (map_item city_json lc) of
        Mounted s \<Rightarrow> s
      | Crashed \<Rightarrow> boot fav lc
      | Untyped \<Rightarrow> boot fav lc)"

section \<open>Events\<close>

text \<open>
  What can happen to a mounted component. From the user: a keystroke in the input
  (\<open>QueryChange\<close>), a click on a suggestion or a favorite (\<open>SelectCity\<close>, with
  whether React sees another value of \<open>selectedCity\<close> and so runs the effect), on
  the star (\<open>ToggleFavorite\<close>) and on the query button (\<open>QueryClick\<close>); the two
  buttons are disabled as in the markup. From the platform: time passing, a due timer
  firing, and the settling of the promise a request in flight awaits. A request whose
  controller has been aborted settles by rejection with the abort reason and in no
  other way; a timer fires no earlier than it is due. Where a step writes to
  \<open>localStorage\<close>, the event says whether the write returns or throws.

  JavaScript runs one handler or continuation at a time, each to its next
  \<open>await\<close>, so a step is one such run, on the state that the steps before it have
  left.
\<close>

datatype event =
    QueryChange js_string
  | Tick nat
  | TimerFire nat
  | SelectCity City bool
  | ToggleFavorite bool
  | QueryClick
  | FetchResolve nat bool
  | FetchReject nat js_error
  | JsonGeocoding nat GeocodingResponse
  | JsonForecast nat forecast bool
  | JsonReject nat js_error

definition awaiting :: "nat \<Rightarrow> phase \<Rightarrow> state \<Rightarrow> request option" where
  "awaiting i p s = find (\<lambda>r. rid r = i \<and> rphase r = p) (pending s)"

fun step :: "event \<Rightarrow> state \<Rightarrow> state option" where
  "step (QueryChange v) s = Some (onQueryChange v s)"
| "step (Tick d) s = Some (s\<lparr>clock := clock s + d\<rparr>)"
| "step (TimerFire t) s =
     (case find (\<lambda>x. handle x = t) (timers s) of
        None \<Rightarrow> None
      | Some x \<Rightarrow>
          if due x \<le> clock s then Some (fetchSuggestions (arg x) (drop_timer t s))
          else None)"
| "step (SelectCity city changed) s =
     (if (city \<in> set (suggestions s) \<or> city \<in> set (favorites s)) \<and>
         (selectedCity s \<noteq> Some city \<longrightarrow> changed)
      then Some (if changed then selectedCity_effect (selectCity city s)
                 else selectCity city s)
      else None)"
| "step (ToggleFavorite accepted) s =
     (if selectedCity s = None then None else Some (toggleFavorite accepted s))"
| "step QueryClick s =
     (case selectedCity s of
        None \<Rightarrow> None
      | Some city \<Rightarrow> if loading s then None else Some (fetchWeather city s))"
| "step (FetchResolve i ok) s =
     (case awaiting i AwaitFetch s of
        None \<Rightarrow> None
      | Some r \<Rightarrow>
          if i \<in> aborted s then None
          else (case rkind r of
                  Geocoding nm \<Rightarrow> Some (suggest_response i ok s)
                | Forecast city \<Rightarrow> Some (weather_response i ok s)))"
| "step (FetchReject i e) s =
     (case awaiting i AwaitFetch s of
        None \<Rightarrow> None
      | Some r \<Rightarrow>
          if i \<in> aborted s \<and> e \<noteq> abort_reason then None
          else (case rkind r of
                  Geocoding nm \<Rightarrow> Some (suggest_rejected i e s)
                | Forecast city \<Rightarrow> Some (weather_rejected i e s)))"
| "step (JsonGeocoding i data) s =
     (case awaiting i AwaitJson s of
        None \<Rightarrow> None
      | Some r \<Rightarrow>
          if i \<in> aborted s then None
          else (case rkind r of
                  Geocoding nm \<Rightarrow> Some (suggest_json i data s)
                | Forecast city \<Rightarrow> None))"
| "step (JsonForecast i data accepted) s =
     (case awaiting i AwaitJson s of
        None \<Rightarrow> None
      | Some r \<Rightarrow>
          if i \<in> aborted s then None
          else (case rkind r of
                  Geocoding nm \<Rightarrow> None
                | Forecast city \<Rightarrow> Some (weather_json i city data accepted s)))"
| "step (JsonReject i e) s =
     (case awaiting i AwaitJson s of
        None \<Rightarrow> None
      | Some r \<Rightarrow>
          if i \<in> aborted s \<and> e \<noteq> abort_reason then None
          else (case rkind r of
                  Geocoding nm \<Rightarrow> Some (suggest_rejected i e s)
                | Forecast city \<Rightarrow> Some (weather_rejected i e s)))"

fun run :: "event list \<Rightarrow> state \<Rightarrow> state option" where
  "run [] s = Some s"
| "run (e # es) s = (case step e s of None \<Rightarrow> None | Some s1 \<Rightarrow> run es s1)"

section \<open>Vocabulary of the properties\<close>

text \<open>The equality triple of a city, and the invariant of a favorites list: at most 20
  entries, no two with the same triple. A stored value keeps the invariant when it is
  no list at all or a list that has it.\<close>

definition triple :: "City \<Rightarrow> js_string \<times> real \<times> real" where
  "triple c = (name c, latitude c, longitude c)"

definition fav_inv :: "City list \<Rightarrow> bool" where
  "fav_inv xs \<longleftrightarrow> length xs \<le> 20 \<and> distinct (map triple xs)"

fun stored_ok :: "City list item \<Rightarrow> bool" where
  "stored_ok (Json xs) = fav_inv xs"
| "stored_ok Missing = True"
| "stored_ok EmptyText = True"
| "stored_ok Malformed = True"

text \<open>The request an event settles (or moves on), if it is one of the platform's
  deliveries; and whether two network calls are of the same kind.\<close>

definition target :: "event \<Rightarrow> nat option" where
  "target ev =
     (case ev of
        FetchResolve i ok \<Rightarrow> Some i
      | FetchReject i e \<Rightarrow> Some i
      | JsonGeocoding i g \<Rightarrow> Some i
      | JsonForecast i d a \<Rightarrow> Some i
      | JsonReject i e \<Rightarrow> Some i
      | _ \<Rightarrow> None)"

fun same_kind :: "request_kind \<Rightarrow> request_kind \<Rightarrow> bool" where
  "same_kind (Geocoding a) (Geocoding b) = True"
| "same_kind (Forecast a) (Forecast b) = True"
| "same_kind (Geocoding a) (Forecast b) = False"
| "same_kind (Forecast a) (Geocoding b) = False"

text \<open>Every request in flight that has not been aborted is the one its kind's ref
  points to.\<close>

definition latest :: "state \<Rightarrow> bool" where
  "latest s \<longleftrightarrow>
     (\<forall>r \<in> set (pending s). \<forall>nm. rkind r = Geocoding nm \<longrightarrow> rid r \<notin> aborted s \<longrightarrow>
        suggestAbortRef s = Some (rid r)) \<and>
     (\<forall>r \<in> set (pending s). \<forall>city. rkind r = Forecast city \<longrightarrow> rid r \<notin> aborted s \<longrightarrow>
        weatherAbortRef s = Some (rid r))"

text \<open>Every armed timer is the one \<open>debounceRef\<close> holds, and that handle is not 0.\<close>

definition one_timer :: "state \<Rightarrow> bool" where
  "one_timer s \<longleftrightarrow>
     debounceRef s \<noteq> Some 0 \<and> (\<forall>x \<in> set (timers s). debounceRef s = Some (handle x))"

text \<open>
  A sequence of events is typed fast, \<open>el\<close> time units after the last keystroke, when
  each of its keystrokes comes less than 300 time units after the keystroke before
  it. \<open>last_query v\<close> is the text of its last keystroke (\<open>v\<close> if it has none),
  \<open>quiet\<close> says that it has no keystroke, and \<open>searches\<close> lists the names of the
  geocoding calls among network calls. \<open>inert\<close> events are those that are neither a
  keystroke, nor time passing, nor a timer firing.
\<close>

fun fast :: "nat \<Rightarrow> event list \<Rightarrow> bool" where
  "fast el [] = True"
| "fast el (QueryChange v # es) = (el < 300 \<and> fast 0 es)"
| "fast el (Tick d # es) = fast (el + d) es"
| "fast el (e # es) = fast el es"

fun last_query :: "js_string \<Rightarrow> event list \<Rightarrow> js_string" where
  "last_query v [] = v"
| "last_query v (QueryChange u # es) = last_query u es"
| "last_query v (e # es) = last_query v es"

fun quiet :: "event list \<Rightarrow> bool" where
  "quiet [] = True"
| "quiet (QueryChange v # es) = False"
| "quiet (e # es) = quiet es"

fun searches :: "request_kind list \<Rightarrow> js_string list" where
  "searches [] = []"
| "searches (Geocoding nm # ks) = nm # searches ks"
| "searches (Forecast city # ks) = searches ks"

fun inert :: "event \<Rightarrow> bool" where
  "inert (QueryChange v) = False"
| "inert (Tick d) = False"
| "inert (TimerFire t) = False"
| "inert e = True"

text \<open>\<open>el\<close> time units after the keystroke \<open>v\<close>: the only timer that can be armed is
  the one of that keystroke.\<close>

definition armed :: "state \<Rightarrow> nat \<Rightarrow> js_string \<Rightarrow> bool" where
  "armed s el v \<longleftrightarrow>
     one_timer s \<and> (\<forall>x \<in> set (timers s). arg x = v \<and> due x + el = clock s + 300)"

section \<open>Example values\<close>

definition paris :: City where
  "paris = \<lparr>name = lit ''Paris'', country = Some (lit ''FR''),
             latitude = 48.85, longitude = 2.35\<rparr>"

definition lyon :: City where
  "lyon = \<lparr>name = lit ''Lyon'', country = None, latitude = 45.75, longitude = 4.85\<rparr>"

definition twenty :: "City list" where
  "twenty =
     map (\<lambda>k. \<lparr>name = lit ''c'', country = None, latitude = real k, longitude = 0\<rparr>) [0..<20]"

definition sunny :: current_weather where
  "sunny = \<lparr>temperature = 21, windspeed = 3, winddirection = 180,
             time_of = lit ''2024-06-01T12:00''\<rparr>"

text \<open>An hourly series with two times and one temperature, and one of 25 points.\<close>

definition short_hourly :: hourly_series where
  "short_hourly =
     \<lparr>time = [lit ''2024-06-01T00:00'', lit ''2024-06-01T01:00''],
      temperature_2m = [15], relativehumidity_2m = [80, 78]\<rparr>"

definition long_hourly :: hourly_series where
  "long_hourly =
     \<lparr>time = replicate 25 (lit ''2024-06-01T00:00''),
      temperature_2m = replicate 25 15, relativehumidity_2m = replicate 25 80\<rparr>"

text \<open>Paris restored and its forecast in flight, Lyon a favorite; then Lyon clicked;
  then the response to the request for Lyon arrived.\<close>

definition home :: state where
  "home = mount (Json [lyon]) (Json paris)"

definition switched :: state where
  "switched = fetchWeather lyon (selectCity lyon home)"

definition answered :: state where
  "answered = weather_response 1 True switched"

text \<open>Two keystrokes 100 time units apart, and the second one's timer firing.\<close>

definition typed :: state where
  "typed =
     fetchSuggestions (lit ''Pa'')
       (drop_timer 2
          ((onQueryChange (lit ''Pa'')
              ((onQueryChange (lit ''P'') (mount Missing Missing))\<lparr>clock := 100\<rparr>))
           \<lparr>clock := 400\<rparr>))"

text \<open>Then a third keystroke, 300 time units later, and its timer firing while the
  search for the second is in flight.\<close>

definition retyped :: state where
  "retyped =
     fetchSuggestions (lit ''Par'')
       (drop_timer 3 ((onQueryChange (lit ''Par'') typed)\<lparr>clock := 700\<rparr>))"

definition short_forecast :: forecast where
  "short_forecast = \<lparr>data_current_weather = Some sunny, data_hourly = Some short_hourly\<rparr>"

definition long_forecast :: forecast where
  "long_forecast = \<lparr>data_current_weather = Some sunny, data_hourly = Some long_hourly\<rparr>"

section \<open>Lemmas\<close>

subsection \<open>Strings\<close>

lemma trim_empty_iff: "trim nm = [] \<longleftrightarrow> (\<forall>c \<in> set nm. white_space c)"
proof -
  have "trim nm = [] \<longleftrightarrow> (\<forall>c \<in> set (dropWhile white_space nm). white_space c)"
    by (simp only: trim_def rev_is_Nil_conv dropWhile_eq_Nil_conv set_rev)
  also have "\<dots> \<longleftrightarrow> dropWhile white_space nm = []"
  proof (cases "dropWhile white_space nm")
    case Nil
    then show ?thesis by (auto dest: set_dropWhileD)
  next
    case (Cons a as)
    then have "\<not> white_space a"
      using hd_dropWhile [of white_space nm] by simp
    with Cons show ?thesis by auto
  qed
  finally show ?thesis by (simp add: dropWhile_eq_Nil_conv)
qed

subsection \<open>What a step is, and what each operation leaves alone\<close>

lemmas op_defs =
  onQueryChange_def clearTimeout_def drop_timer_def fetchSuggestions_def fetchWeather_def
  abort_def issue_def settle_def advance_def suggest_catch_def suggest_finally_def
  suggest_response_def suggest_json_def suggest_rejected_def weather_catch_def
  weather_finally_def weather_response_def weather_json_def weather_rejected_def
  selectCity_def selectedCity_effect_def toggleFavorite_def saveFavorites_def awaiting_def

lemma step_cases:
  assumes "step ev s = Some s'"
  shows "(\<exists>v. ev = QueryChange v \<and> s' = onQueryChange v s) \<or>
         (\<exists>d. ev = Tick d \<and> s' = s\<lparr>clock := clock s + d\<rparr>) \<or>
         (\<exists>t x. ev = TimerFire t \<and> find (\<lambda>x. handle x = t) (timers s) = Some x \<and>
                due x \<le> clock s \<and> s' = fetchSuggestions (arg x) (drop_timer t s)) \<or>
         (\<exists>city. ev = SelectCity city True \<and> s' = fetchWeather city (selectCity city s)) \<or>
         (\<exists>city. ev = SelectCity city False \<and> s' = selectCity city s) \<or>
         (\<exists>a. ev = ToggleFavorite a \<and> s' = toggleFavorite a s) \<or>
         (\<exists>city. ev = QueryClick \<and> s' = fetchWeather city s) \<or>
         (\<exists>i ok. ev = FetchResolve i ok \<and> i \<notin> aborted s \<and>
                 (s' = suggest_response i ok s \<or> s' = weather_response i ok s)) \<or>
         (\<exists>i e. (ev = FetchReject i e \<or> ev = JsonReject i e) \<and>
                 (i \<in> aborted s \<longrightarrow> e = abort_reason) \<and>
                 (s' = suggest_rejected i e s \<or> s' = weather_rejected i e s)) \<or>
         (\<exists>i d. ev = JsonGeocoding i d \<and> i \<notin> aborted s \<and> s' = suggest_json i d s) \<or>
         (\<exists>i d a r city. ev = JsonForecast i d a \<and> i \<notin> aborted s \<and>
                 awaiting i AwaitJson s = Some r \<and> rkind r = Forecast city \<and>
                 s' = weather_json i city d a s)"
proof (cases ev)
  case (SelectCity city changed)
  then show ?thesis using assms
    by (cases changed) (auto simp: selectedCity_effect_def selectCity_def split: if_splits)
qed (use assms in \<open>auto split: option.splits if_splits request_kind.splits\<close>)

lemma run_Cons_Some:
  assumes "run (ev # tr) s = Some s'"
  obtains s1 where "step ev s = Some s1" and "run tr s1 = Some s'"
  using assms by (auto split: option.splits)

lemma favorites_frame:
  "favorites (onQueryChange v s) = favorites s"
  "favorites (drop_timer t s) = favorites s"
  "favorites (fetchSuggestions nm s) = favorites s"
  "favorites (fetchWeather city s) = favorites s"
  "favorites (selectCity city s) = favorites s"
  "favorites (suggest_response i ok s) = favorites s"
  "favorites (weather_response i ok s) = favorites s"
  "favorites (suggest_rejected i e s) = favorites s"
  "favorites (weather_rejected i e s) = favorites s"
  "favorites (suggest_json i g s) = favorites s"
  "favorites (weather_json i city d a s) = favorites s"
  by (simp_all add: op_defs Let_def split: option.split)

lemma stored_favorites_frame:
  "stored_favorites (onQueryChange v s) = stored_favorites s"
  "stored_favorites (drop_timer t s) = stored_favorites s"
  "stored_favorites (fetchSuggestions nm s) = stored_favorites s"
  "stored_favorites (fetchWeather city s) = stored_favorites s"
  "stored_favorites (selectCity city s) = stored_favorites s"
  "stored_favorites (suggest_response i ok s) = stored_favorites s"
  "stored_favorites (weather_response i ok s) = stored_favorites s"
  "stored_favorites (suggest_rejected i e s) = stored_favorites s"
  "stored_favorites (weather_rejected i e s) = stored_favorites s"
  "stored_favorites (suggest_json i g s) = stored_favorites s"
  "stored_favorites (weather_json i city d a s) = stored_favorites s"
  by (simp_all add: op_defs Let_def split: option.split)

lemma stored_lastCity_frame:
  "stored_lastCity (onQueryChange v s) = stored_lastCity s"
  "stored_lastCity (drop_timer t s) = stored_lastCity s"
  "stored_lastCity (fetchSuggestions nm s) = stored_lastCity s"
  "stored_lastCity (fetchWeather city s) = stored_lastCity s"
  "stored_lastCity (selectCity city s) = stored_lastCity s"
  "stored_lastCity (toggleFavorite a s) = stored_lastCity s"
  "stored_lastCity (suggest_response i ok s) = stored_lastCity s"
  "stored_lastCity (weather_response i ok s) = stored_lastCity s"
  "stored_lastCity (suggest_rejected i e s) = stored_lastCity s"
  "stored_lastCity (weather_rejected i e s) = stored_lastCity s"
  "stored_lastCity (suggest_json i g s) = stored_lastCity s"
  by (simp_all add: op_defs Let_def split: option.split)

lemma timers_frame:
  "timers (fetchSuggestions nm s) = timers s"
  "timers (fetchWeather city s) = timers s"
  "timers (selectCity city s) = timers s"
  "timers (toggleFavorite a s) = timers s"
  "timers (suggest_response i ok s) = timers s"
  "timers (weather_response i ok s) = timers s"
  "timers (suggest_rejected i e s) = timers s"
  "timers (weather_rejected i e s) = timers s"
  "timers (suggest_json i g s) = timers s"
  "timers (weather_json i city d a s) = timers s"
  by (simp_all add: op_defs Let_def split: option.split)

lemma debounceRef_frame:
  "debounceRef (drop_timer t s) = debounceRef s"
  "debounceRef (fetchSuggestions nm s) = debounceRef s"
  "debounceRef (fetchWeather city s) = debounceRef s"
  "debounceRef (selectCity city s) = debounceRef s"
  "debounceRef (toggleFavorite a s) = debounceRef s"
  "debounceRef (suggest_response i ok s) = debounceRef s"
  "debounceRef (weather_response i ok s) = debounceRef s"
  "debounceRef (suggest_rejected i e s) = debounceRef s"
  "debounceRef (weather_rejected i e s) = debounceRef s"
  "debounceRef (suggest_json i g s) = debounceRef s"
  "debounceRef (weather_json i city d a s) = debounceRef s"
  by (simp_all add: op_defs Let_def split: option.split)

lemma clock_frame:
  "clock (onQueryChange v s) = clock s"
  "clock (drop_timer t s) = clock s"
  "clock (fetchSuggestions nm s) = clock s"
  "clock (fetchWeather city s) = clock s"
  "clock (selectCity city s) = clock s"
  "clock (toggleFavorite a s) = clock s"
  "clock (suggest_response i ok s) = clock s"
  "clock (weather_response i ok s) = clock s"
  "clock (suggest_rejected i e s) = clock s"
  "clock (weather_rejected i e s) = clock s"
  "clock (suggest_json i g s) = clock s"
  "clock (weather_json i city d a s) = clock s"
  by (simp_all add: op_defs Let_def split: option.split)

lemma calls_frame:
  "calls (onQueryChange v s) = calls s"
  "calls (drop_timer t s) = calls s"
  "calls (selectCity city s) = calls s"
  "calls (toggleFavorite a s) = calls s"
  "calls (suggest_response i ok s) = calls s"
  "calls (weather_response i ok s) = calls s"
  "calls (suggest_rejected i e s) = calls s"
  "calls (weather_rejected i e s) = calls s"
  "calls (suggest_json i g s) = calls s"
  "calls (weather_json i city d a s) = calls s"
  "calls (fetchWeather city s) = calls s @ [Forecast city]"
  "calls (fetchSuggestions nm s) =
     calls s @ (if trim nm \<noteq> [] \<and> encodable nm then [Geocoding nm] else [])"
  by (simp_all add: op_defs Let_def split: option.split)

subsection \<open>Start-up on stored texts of the expected types\<close>

lemma field_city_json:
  "field (city_json c) (lit ''name'') = Some (JString (name c))"
  "field (city_json c) (lit ''latitude'') = Some (JNumber (latitude c))"
  "field (city_json c) (lit ''longitude'') = Some (JNumber (longitude c))"
  "field (city_json c) (lit ''country'') = map_option JString (country c)"
  by (simp_all add: field_def city_json_def lit_def split: option.split)

lemma as_city_json: "as_city (city_json c) = Some c"
  by (cases "country c") (simp_all add: as_city_def field_city_json)

lemma as_cities_json: "as_cities (cities_json cs) = Some cs"
  by (induction cs) (simp_all add: as_cities_def cities_json_def as_city_json)

lemma expected_item:
  "expected as_cities (map_item cities_json fav) = Some fav"
  "expected as_city (map_item city_json lc) = Some lc"
  by (cases fav; simp add: as_cities_json) (cases lc; simp add: as_city_json)

lemma city_json_renders:
  "\<not> favorite_throws (city_json c)" "\<not> selected_throws (city_json c)"
  by (cases "country c";
      simp add: favorite_throws_def selected_throws_def field_city_json stringifies_prop_def
        renders_prop_def truthy_prop_def is_number_def; simp add: city_json_def)+

lemma cities_json_some: "\<not> some_throws sel (map city_json cs)"
  by (induction cs) (simp_all add: city_json_def)

lemma typed_renders:
  "\<not> favorites_list_throws (cities_json cs)"
  "\<not> hasFavorited_throws (cities_json cs) sel"
  "\<not> favorites_list_throws (JArray [])"
  "\<not> hasFavorited_throws (JArray []) sel"
  "\<not> hasFavorited_throws fav JNull"
  "\<not> selected_throws JNull"
  by (simp_all add: favorites_list_throws_def hasFavorited_throws_def selected_throws_def
      cities_json_def list_ex_iff city_json_renders cities_json_some)

lemma startup_typed:
  "startup (map_item cities_json fav) (map_item city_json lc) =
     Mounted (selectedCity_effect
       ((boot fav lc)
          \<lparr>favorites := (case fav of Json cs \<Rightarrow> cs | _ \<Rightarrow> []),
           selectedCity :=
             (case fav of
                Malformed \<Rightarrow> None
              | _ \<Rightarrow> (case lc of Json c \<Rightarrow> Some c | _ \<Rightarrow> None))\<rparr>))"
  by (cases fav; cases lc)
     (simp_all add: startup_def restore_def restore_try_def ignoreError_def
        favorites_value_def selectedCity_value_def render_throws_def typed_renders
        city_json_renders expected_item as_cities_json as_city_json
        installed_state_def Let_def)

lemma mount_unfold:
  "mount fav lc =
     selectedCity_effect
       ((boot fav lc)
          \<lparr>favorites := (case fav of Json cs \<Rightarrow> cs | _ \<Rightarrow> []),
           selectedCity :=
             (case fav of
                Malformed \<Rightarrow> None
              | _ \<Rightarrow> (case lc of Json c \<Rightarrow> Some c | _ \<Rightarrow> None))\<rparr>)"
  by (simp add: mount_def startup_typed)

text \<open>Stored JSON of another type: as the favorites, null, a non-empty string and an
  array with a null entry take the component down whatever the other key holds; an
  empty object does so once a city is restored, and so does an empty object as the
  last city.\<close>

lemma startup_other_types:
  "startup (Json JNull) lc = Crashed"
  "startup (Json (JString (lit ''x''))) lc = Crashed"
  "startup (Json (JArray [JNull])) lc = Crashed"
  "startup (Json (JObject [])) Missing = Untyped"
  "startup (Json (JObject [])) (Json (city_json c)) = Crashed"
  "startup Missing (Json (JObject [])) = Crashed"
  "startup Missing (Json JNull) = Untyped"
  by (cases lc; simp add: startup_def restore_def restore_try_def ignoreError_def
        favorites_value_def selectedCity_value_def render_throws_def
        favorites_list_throws_def hasFavorited_throws_def selected_throws_def
        favorite_throws_def field_def lit_def Let_def as_cities_def as_city_def
        installed_state_def truthy_prop_def renders_prop_def is_number_def city_json_def
        stringifies_prop_def split: option.split)+


subsection \<open>The favorites invariant\<close>

lemma same_city_triple: "same_city sel c \<longleftrightarrow> triple c = triple sel"
  by (auto simp: same_city_def triple_def)

lemma fav_inv_toggle:
  assumes "fav_inv (favorites s)"
  shows "fav_inv (favorites (toggleFavorite a s))"
proof (cases "selectedCity s")
  case None
  then show ?thesis using assms by (simp add: toggleFavorite_def)
next
  case (Some sel)
  show ?thesis
  proof (cases "hasFavorited s")
    case True
    have "length (filter (\<lambda>c. \<not> same_city sel c) (favorites s)) \<le> 20"
      using assms le_trans [OF length_filter_le [of "\<lambda>c. \<not> same_city sel c" "favorites s"]]
      by (simp add: fav_inv_def)
    moreover have "distinct (map triple (filter (\<lambda>c. \<not> same_city sel c) (favorites s)))"
      using assms by (simp add: fav_inv_def distinct_map_filter)
    ultimately show ?thesis
      using Some True by (simp add: toggleFavorite_def saveFavorites_def Let_def fav_inv_def)
  next
    case False
    then have "triple sel \<notin> set (map triple (favorites s))"
      using Some by (auto simp: hasFavorited_def list_ex_iff same_city_triple)
    then have "distinct (map triple (sel # favorites s))"
      using assms by (simp add: fav_inv_def)
    then have "distinct (take 20 (map triple (sel # favorites s)))"
      by (rule distinct_take)
    then have "distinct (map triple (take 20 (sel # favorites s)))"
      by (simp only: take_map)
    then show ?thesis
      using Some False by (simp add: toggleFavorite_def saveFavorites_def Let_def fav_inv_def)
  qed
qed

lemma stored_toggle:
  assumes "fav_inv (favorites s)" and "stored_ok (stored_favorites s)"
  shows "stored_ok (stored_favorites (toggleFavorite a s))"
proof -
  have "stored_favorites (toggleFavorite a s) = stored_favorites s \<or>
        stored_favorites (toggleFavorite a s) = Json (favorites (toggleFavorite a s))"
    by (simp add: toggleFavorite_def saveFavorites_def Let_def split: option.split)
  then show ?thesis
    using assms fav_inv_toggle [OF assms(1), of a] by auto
qed

lemma step_favorites:
  assumes "step ev s = Some s'"
  shows "(\<exists>a. ev = ToggleFavorite a \<and> s' = toggleFavorite a s) \<or>
         (favorites s' = favorites s \<and> stored_favorites s' = stored_favorites s)"
  using step_cases [OF assms]
  by (elim disjE exE conjE) (simp_all add: favorites_frame stored_favorites_frame)

lemma step_fav_inv:
  assumes "step ev s = Some s'" and "fav_inv (favorites s)" and "stored_ok (stored_favorites s)"
  shows "fav_inv (favorites s') \<and> stored_ok (stored_favorites s')"
  using step_favorites [OF assms(1)] assms(2,3) fav_inv_toggle stored_toggle by auto

lemma run_fav_inv:
  assumes "run tr s = Some s'" and "fav_inv (favorites s)" and "stored_ok (stored_favorites s)"
  shows "fav_inv (favorites s') \<and> stored_ok (stored_favorites s')"
  using assms
proof (induction tr arbitrary: s)
  case Nil
  then show ?case by simp
next
  case (Cons ev tr)
  from Cons.prems(1) obtain s1 where s1: "step ev s = Some s1" and r: "run tr s1 = Some s'"
    by (rule run_Cons_Some)
  from step_fav_inv [OF s1 Cons.prems(2,3)] Cons.IH [OF r] show ?case by simp
qed

lemma mount_favorites:
  "favorites (mount fav lc) = (case fav of Json xs \<Rightarrow> xs | _ \<Rightarrow> []) \<and>
   stored_favorites (mount fav lc) = fav"
  by (cases fav; cases lc)
     (simp_all add: mount_unfold boot_def
        selectedCity_effect_def fetchWeather_def abort_def issue_def Let_def)

subsection \<open>Requests in flight\<close>

lemma latest_simple:
  "latest s \<Longrightarrow> latest (onQueryChange v s)"
  "latest s \<Longrightarrow> latest (drop_timer t s)"
  "latest s \<Longrightarrow> latest (selectCity city s)"
  "latest s \<Longrightarrow> latest (toggleFavorite a s)"
  "latest s \<Longrightarrow> latest (s\<lparr>clock := n\<rparr>)"
  by (simp_all add: latest_def onQueryChange_def clearTimeout_def drop_timer_def
      selectCity_def toggleFavorite_def saveFavorites_def Let_def split: option.split)

lemma latest_fetchSuggestions: "latest s \<Longrightarrow> latest (fetchSuggestions nm s)"
  by (auto simp: latest_def fetchSuggestions_def abort_def issue_def suggest_catch_def
      suggest_finally_def Let_def split: option.splits)

lemma latest_fetchWeather: "latest s \<Longrightarrow> latest (fetchWeather city s)"
  by (auto simp: latest_def fetchWeather_def abort_def issue_def Let_def
      split: option.splits)

lemma latest_settle: "latest s \<Longrightarrow> latest (settle i s)"
  by (auto simp: latest_def settle_def)

lemma latest_advance: "latest s \<Longrightarrow> latest (advance i s)"
  by (auto simp: latest_def advance_def)

lemma latest_continuations:
  "latest s \<Longrightarrow> latest (suggest_response i ok s)"
  "latest s \<Longrightarrow> latest (weather_response i ok s)"
  "latest s \<Longrightarrow> latest (suggest_rejected i e s)"
  "latest s \<Longrightarrow> latest (weather_rejected i e s)"
  "latest s \<Longrightarrow> latest (suggest_json i g s)"
  "latest s \<Longrightarrow> latest (weather_json i city d a s)"
proof -
  have fin: "\<And>t. latest t \<Longrightarrow> latest (suggest_finally t)"
    "\<And>t. latest t \<Longrightarrow> latest (weather_finally t)"
    "\<And>t e. latest t \<Longrightarrow> latest (suggest_catch e t)"
    "\<And>t e. latest t \<Longrightarrow> latest (weather_catch e t)"
    "\<And>t x. latest t \<Longrightarrow> latest (t\<lparr>suggestions := x\<rparr>)"
    "\<And>t x. latest t \<Longrightarrow> latest (t\<lparr>weather := x\<rparr>)"
    "\<And>t x. latest t \<Longrightarrow> latest (t\<lparr>stored_lastCity := x\<rparr>)"
    by (simp_all add: latest_def suggest_finally_def weather_finally_def suggest_catch_def
        weather_catch_def)
  assume l: "latest s"
  show "latest (suggest_response i ok s)" "latest (weather_response i ok s)"
    "latest (suggest_rejected i e s)" "latest (weather_rejected i e s)"
    "latest (suggest_json i g s)" "latest (weather_json i city d a s)"
    using l
    by (simp_all add: suggest_response_def weather_response_def suggest_rejected_def
        weather_rejected_def suggest_json_def weather_json_def Let_def fin latest_settle
        latest_advance split: option.split)
qed

lemma step_latest:
  assumes "step ev s = Some s'" and "latest s"
  shows "latest s'"
  using step_cases [OF assms(1)] assms(2)
  by (elim disjE exE conjE)
     (simp_all add: latest_simple latest_fetchSuggestions latest_fetchWeather
        latest_continuations)

lemma mount_latest: "latest (mount fav lc)"
  by (cases fav; cases lc)
     (simp_all add: latest_def mount_unfold boot_def
        selectedCity_effect_def fetchWeather_def abort_def issue_def Let_def)

lemma run_latest:
  assumes "run tr s = Some s'" and "latest s"
  shows "latest s'"
  using assms
proof (induction tr arbitrary: s)
  case Nil
  then show ?case by simp
next
  case (Cons ev tr)
  from Cons.prems(1) obtain s1 where s1: "step ev s = Some s1" and r: "run tr s1 = Some s'"
    by (rule run_Cons_Some)
  from Cons.IH [OF r step_latest [OF s1 Cons.prems(2)]] show ?case .
qed

lemma aborted_mono_ops:
  "aborted s \<subseteq> aborted (onQueryChange v s)"
  "aborted s \<subseteq> aborted (fetchSuggestions nm (drop_timer t s))"
  "aborted s \<subseteq> aborted (fetchWeather city (selectCity city s))"
  "aborted s \<subseteq> aborted (selectCity city s)"
  "aborted s \<subseteq> aborted (toggleFavorite a s)"
  "aborted s \<subseteq> aborted (fetchWeather city s)"
  "aborted s \<subseteq> aborted (suggest_response i ok s)"
  "aborted s \<subseteq> aborted (weather_response i ok s)"
  "aborted s \<subseteq> aborted (suggest_rejected i e s)"
  "aborted s \<subseteq> aborted (weather_rejected i e s)"
  "aborted s \<subseteq> aborted (suggest_json i g s)"
  "aborted s \<subseteq> aborted (weather_json i city d a s)"
  by (auto simp: op_defs Let_def split: option.splits)

lemma step_aborted_mono:
  assumes "step ev s = Some s'"
  shows "aborted s \<subseteq> aborted s'"
  using step_cases [OF assms]
  by (elim disjE exE conjE) (simp_all add: aborted_mono_ops)

lemma run_aborted_mono:
  assumes "run tr s = Some s'"
  shows "aborted s \<subseteq> aborted s'"
  using assms
proof (induction tr arbitrary: s)
  case Nil
  then show ?case by simp
next
  case (Cons ev tr)
  from Cons.prems(1) obtain s1 where s1: "step ev s = Some s1" and r: "run tr s1 = Some s'"
    by (rule run_Cons_Some)
  from step_aborted_mono [OF s1] Cons.IH [OF r] show ?case by blast
qed

lemma aborted_delivery:
  assumes "step ev s = Some s'" and "target ev = Some i" and "i \<in> aborted s"
  shows "suggestions s' = suggestions s \<and> weather s' = weather s \<and> error s' = error s"
proof -
  have ab: "isAbortError abort_reason"
    by (simp add: abort_reason_def)
  have "suggestions (suggest_rejected i abort_reason s) = suggestions s \<and>
        weather (suggest_rejected i abort_reason s) = weather s \<and>
        error (suggest_rejected i abort_reason s) = error s \<and>
        suggestions (weather_rejected i abort_reason s) = suggestions s \<and>
        weather (weather_rejected i abort_reason s) = weather s \<and>
        error (weather_rejected i abort_reason s) = error s"
    using ab by (simp add: suggest_rejected_def weather_rejected_def suggest_catch_def
        weather_catch_def suggest_finally_def weather_finally_def settle_def)
  then show ?thesis
    using step_cases [OF assms(1)] assms(2,3)
    by (elim disjE exE conjE) (auto simp: target_def)
qed

lemma pending_frame:
  "pending (drop_timer t s) = pending s"
  "pending (selectCity city s) = pending s"
  "suggestAbortRef (drop_timer t s) = suggestAbortRef s"
  "weatherAbortRef (selectCity city s) = weatherAbortRef s"
  "aborted (drop_timer t s) = aborted s"
  "aborted (selectCity city s) = aborted s"
  by (simp_all add: drop_timer_def selectCity_def)

lemma fetchSuggestions_aborts:
  assumes "latest s" and "r \<in> set (pending s)" and "rkind r = Geocoding n"
    and "trim nm \<noteq> []"
  shows "rid r \<in> aborted (fetchSuggestions nm s)"
  using assms
  by (auto simp: latest_def fetchSuggestions_def abort_def issue_def suggest_catch_def
      suggest_finally_def Let_def split: option.splits)

lemma fetchWeather_aborts:
  assumes "latest s" and "r \<in> set (pending s)" and "rkind r = Forecast c"
  shows "rid r \<in> aborted (fetchWeather city s)"
  using assms
  by (auto simp: latest_def fetchWeather_def abort_def issue_def Let_def split: option.splits)

lemma issuing_step_aborts:
  assumes "latest s" and "r \<in> set (pending s)" and "step ev s = Some s1"
    and "calls s1 = calls s @ [k]" and "same_kind k (rkind r)"
  shows "rid r \<in> aborted s1"
proof -
  have dl: "latest (drop_timer t s)" for t
    using assms(1) by (rule latest_simple)
  have sl: "latest (selectCity city s)" for city
    using assms(1) by (rule latest_simple)
  from step_cases [OF assms(3)] show ?thesis
  proof (elim disjE exE conjE)
    fix t x
    assume s1: "s1 = fetchSuggestions (arg x) (drop_timer t s)"
    with assms(4) have "trim (arg x) \<noteq> []" and "k = Geocoding (arg x)"
      by (auto simp: calls_frame split: if_splits)
    with assms(5) obtain n where "rkind r = Geocoding n"
      by (cases "rkind r") simp_all
    then show ?thesis
      using fetchSuggestions_aborts [OF dl, of r t n "arg x"] assms(2) \<open>trim (arg x) \<noteq> []\<close>
      by (simp add: s1 pending_frame)
  next
    fix city
    assume s1: "s1 = fetchWeather city (selectCity city s)"
    with assms(4) have "k = Forecast city"
      by (simp add: calls_frame)
    with assms(5) obtain c where "rkind r = Forecast c"
      by (cases "rkind r") simp_all
    then show ?thesis
      using fetchWeather_aborts [OF sl, of r city c city] assms(2)
      by (simp add: s1 pending_frame)
  next
    fix city
    assume s1: "s1 = fetchWeather city s"
    with assms(4) have "k = Forecast city"
      by (simp add: calls_frame)
    with assms(5) obtain c where "rkind r = Forecast c"
      by (cases "rkind r") simp_all
    then show ?thesis
      using fetchWeather_aborts [OF assms(1,2), of c city] by (simp add: s1)
  qed (use assms(4) in \<open>auto simp: calls_frame\<close>)
qed

subsection \<open>The debounce timer\<close>

lemma inert_simps:
  assumes "inert ev"
  shows "fast el (ev # es) = fast el es" "last_query v (ev # es) = last_query v es"
    "quiet (ev # es) = quiet es"
  using assms by (cases ev; simp)+

lemma searches_append: "searches (xs @ ys) = searches xs @ searches ys"
  by (induction xs rule: searches.induct) simp_all

lemma step_inert:
  assumes "step ev s = Some s'" and "inert ev"
  shows "timers s' = timers s \<and> debounceRef s' = debounceRef s \<and> clock s' = clock s \<and>
         searches (calls s') = searches (calls s)"
  using step_cases [OF assms(1)] assms(2)
  by (elim disjE exE conjE)
     (auto simp: timers_frame debounceRef_frame clock_frame calls_frame searches_append)

lemma event_kinds:
  obtains v where "ev = QueryChange v" | d where "ev = Tick d" | t where "ev = TimerFire t"
    | "inert ev"
  by (cases ev) simp_all

lemma one_timer_onQueryChange:
  assumes "one_timer s"
  shows "timers (onQueryChange v s) =
           [\<lparr>handle = Suc (handles s), due = clock s + 300, arg = v\<rparr>] \<and>
         debounceRef (onQueryChange v s) = Some (Suc (handles s))"
proof (cases "debounceRef s")
  case None
  then have "timers s = []"
    using assms by (cases "timers s") (auto simp: one_timer_def)
  then show ?thesis
    using None by (simp add: onQueryChange_def Let_def)
next
  case (Some t)
  then have "t \<noteq> 0" and "filter (\<lambda>x. handle x \<noteq> t) (timers s) = []"
    using assms by (auto simp: one_timer_def filter_empty_conv)
  then show ?thesis
    using Some by (simp add: onQueryChange_def clearTimeout_def drop_timer_def Let_def)
qed

lemma one_timer_fire:
  assumes "one_timer s" and "find (\<lambda>x. handle x = t) (timers s) = Some x"
  shows "timers (drop_timer t s) = []"
proof -
  from assms(2) have "x \<in> set (timers s)" and "handle x = t"
    by (auto simp: find_Some_iff)
  then have "debounceRef s = Some t"
    using assms(1) by (auto simp: one_timer_def)
  then have "filter (\<lambda>x. handle x \<noteq> t) (timers s) = []"
    using assms(1) by (auto simp: one_timer_def filter_empty_conv)
  then show ?thesis by (simp add: drop_timer_def)
qed

lemma step_one_timer:
  assumes "step ev s = Some s'" and "one_timer s"
  shows "one_timer s'"
proof (cases ev rule: event_kinds)
  case (1 v)
  then have "s' = onQueryChange v s" using assms(1) by simp
  then show ?thesis
    using one_timer_onQueryChange [OF assms(2), of v] by (simp add: one_timer_def)
next
  case (2 d)
  then show ?thesis using assms by (auto simp: one_timer_def)
next
  case (3 t)
  then obtain x where x: "find (\<lambda>x. handle x = t) (timers s) = Some x"
    and s': "s' = fetchSuggestions (arg x) (drop_timer t s)"
    using assms(1) by (auto split: option.splits if_splits)
  show ?thesis
    using assms(2) one_timer_fire [OF assms(2) x]
    by (simp add: s' one_timer_def timers_frame debounceRef_frame)
next
  case 4
  then show ?thesis
    using step_inert [OF assms(1)] assms(2) by (simp add: one_timer_def)
qed

lemma mount_one_timer: "one_timer (mount fav lc)"
  by (cases fav; cases lc)
     (simp_all add: one_timer_def mount_unfold boot_def
        selectedCity_effect_def fetchWeather_def abort_def issue_def Let_def)

lemma run_one_timer:
  assumes "run tr s = Some s'" and "one_timer s"
  shows "one_timer s'"
  using assms
proof (induction tr arbitrary: s)
  case Nil
  then show ?case by simp
next
  case (Cons ev tr)
  from Cons.prems(1) obtain s1 where s1: "step ev s = Some s1" and r: "run tr s1 = Some s'"
    by (rule run_Cons_Some)
  from Cons.IH [OF r step_one_timer [OF s1 Cons.prems(2)]] show ?case .
qed

lemma fast_late_quiet: "fast el es \<Longrightarrow> 300 \<le> el \<Longrightarrow> quiet es"
proof (induction es arbitrary: el)
  case Nil
  then show ?case by simp
next
  case (Cons ev es)
  then show ?case by (cases ev) auto
qed

lemma quiet_last_query: "quiet es \<Longrightarrow> last_query v es = v"
proof (induction es)
  case Nil
  then show ?case by simp
next
  case (Cons ev es)
  then show ?case by (cases ev) auto
qed

lemma quiet_no_search:
  assumes "run es s = Some s'" and "quiet es" and "timers s = []"
  shows "searches (calls s') = searches (calls s)"
  using assms
proof (induction es arbitrary: s)
  case Nil
  then show ?case by simp
next
  case (Cons ev es)
  from Cons.prems(1) obtain s1 where s1: "step ev s = Some s1" and r: "run es s1 = Some s'"
    by (rule run_Cons_Some)
  show ?case
  proof (cases ev rule: event_kinds)
    case (1 v)
    then show ?thesis using Cons.prems(2) by simp
  next
    case (2 d)
    then have "timers s1 = []" "calls s1 = calls s" "quiet es"
      using s1 Cons.prems(2,3) by auto
    then show ?thesis using Cons.IH [OF r] by simp
  next
    case (3 t)
    then show ?thesis using s1 Cons.prems(3) by simp
  next
    case 4
    then have "timers s1 = []" "searches (calls s1) = searches (calls s)" "quiet es"
      using step_inert [OF s1] Cons.prems(2,3) by (simp_all add: inert_simps)
    then show ?thesis using Cons.IH [OF r] by simp
  qed
qed

lemma burst:
  assumes "run tr s = Some s'" and "fast el tr" and "armed s el v"
  shows "searches (calls s') = searches (calls s) \<or>
         searches (calls s') = searches (calls s) @ [last_query v tr]"
  using assms
proof (induction tr arbitrary: s el v)
  case Nil
  then show ?case by simp
next
  case (Cons ev es)
  from Cons.prems(1) obtain s1 where s1: "step ev s = Some s1" and r: "run es s1 = Some s'"
    by (rule run_Cons_Some)
  have ot: "one_timer s" using Cons.prems(3) by (simp add: armed_def)
  show ?case
  proof (cases ev rule: event_kinds)
    case (1 u)
    then have s1': "s1 = onQueryChange u s" using s1 by simp
    have "armed s1 0 u"
      using one_timer_onQueryChange [OF ot, of u] step_one_timer [OF s1 ot]
      by (simp add: armed_def s1' clock_frame)
    moreover have "fast 0 es" using Cons.prems(2) 1 by simp
    ultimately show ?thesis
      using Cons.IH [OF r] 1 by (simp add: s1' calls_frame)
  next
    case (2 d)
    then have "armed s1 (el + d) v" "calls s1 = calls s" "fast (el + d) es"
      using s1 Cons.prems(2,3) by (auto simp: armed_def one_timer_def)
    then show ?thesis using Cons.IH [OF r] 2 by simp
  next
    case (3 t)
    then obtain x where x: "find (\<lambda>x. handle x = t) (timers s) = Some x"
      and d: "due x \<le> clock s"
      and s1': "s1 = fetchSuggestions (arg x) (drop_timer t s)"
      using s1 by (auto split: option.splits if_splits)
    from x have "x \<in> set (timers s)" by (auto simp: find_Some_iff)
    then have a: "arg x = v" and "due x + el = clock s + 300"
      using Cons.prems(3) by (auto simp: armed_def)
    with d have "300 \<le> el" by simp
    moreover have "fast el es" using Cons.prems(2) 3 by simp
    ultimately have q: "quiet es" by (rule fast_late_quiet [rotated])
    have "timers s1 = []"
      using one_timer_fire [OF ot x] by (simp add: s1' timers_frame)
    then have "searches (calls s') = searches (calls s1)"
      using quiet_no_search [OF r q] by simp
    moreover have "searches (calls s1) = searches (calls s) \<or>
        searches (calls s1) = searches (calls s) @ [v]"
      by (simp add: s1' calls_frame searches_append a)
    moreover have "last_query v (ev # es) = v"
      using q 3 by (simp add: quiet_last_query)
    ultimately show ?thesis by auto
  next
    case 4
    then have "armed s1 el v" "searches (calls s1) = searches (calls s)" "fast el es"
      using step_inert [OF s1] Cons.prems(2,3)
      by (simp_all add: armed_def one_timer_def inert_simps)
    then show ?thesis using Cons.IH [OF r] 4 by (simp add: inert_simps)
  qed
qed

subsection \<open>Evaluating the examples\<close>

lemmas eval_defs =
  mount_unfold boot_def op_defs Let_def
  paris_def lyon_def lit_def home_def switched_def answered_def typed_def retyped_def
  trim_def white_space_def lead_surrogate_def trail_surrogate_def
  abort_reason_def http_error_def type_error_def uri_error_def syntax_error_def target_def
  hasFavorited_def same_city_def list_ex_iff fav_inv_def triple_def hourlySlice_def

section \<open>The claims\<close>

subsection \<open>C1: the favorites invariant\<close>

text \<open>
  The mount effect installs whatever list is stored, so a stored list with a repeated
  entry becomes the favorites list as it is.
\<close>

theorem restore_unchecked:
  "favorites (mount (Json [paris, paris]) Missing) = [paris, paris] \<and>
   \<not> fav_inv (favorites (mount (Json [paris, paris]) Missing))"
  by (simp add: eval_defs)

text \<open>
  C1, as amended. When the value stored under the favorites key at start-up is
  missing, empty, malformed or a list with at most 20 entries and no two entries with
  the same (name, latitude, longitude) triple, then in every state reachable from
  mounting, the favorites list has at most 20 entries and no two entries with the same
  triple, and so has the stored list. The toggle operation preserves the invariant
  from any state; the start-up restore yields a list with the invariant exactly when
  the stored value has it.
\<close>

theorem favorites_invariant:
  assumes "stored_ok fav" and "run tr (mount fav lc) = Some s"
  shows "fav_inv (favorites s) \<and> stored_ok (stored_favorites s) \<and>
         (fav_inv (favorites t) \<longrightarrow> fav_inv (favorites (toggleFavorite a t))) \<and>
         fav_inv (favorites (mount fav' lc')) = stored_ok fav'"
proof -
  have "fav_inv (favorites (mount fav lc))"
    using assms(1) by (cases fav) (simp_all add: mount_favorites fav_inv_def)
  moreover have "stored_ok (stored_favorites (mount fav lc))"
    using assms(1) by (simp add: mount_favorites)
  ultimately have "fav_inv (favorites s) \<and> stored_ok (stored_favorites s)"
    using run_fav_inv [OF assms(2)] by simp
  moreover have "fav_inv (favorites (mount fav' lc')) = stored_ok fav'"
    by (cases fav') (simp_all add: mount_favorites fav_inv_def)
  ultimately show ?thesis
    using fav_inv_toggle by blast
qed

theorem favorites_invariant_witness:
  "stored_ok (Json [lyon]) \<and>
   run [ToggleFavorite True] (mount (Json [lyon]) (Json paris)) = Some (toggleFavorite True home) \<and>
   favorites (toggleFavorite True home) = [paris, lyon] \<and>
   fav_inv (favorites (toggleFavorite True home)) \<and>
   stored_ok (stored_favorites (toggleFavorite True home))"
proof -
  have h1: "stored_ok (Json [lyon])"
    by (simp add: eval_defs)
  have h2: "run [ToggleFavorite True] (mount (Json [lyon]) (Json paris)) =
              Some (toggleFavorite True home)"
    by (simp add: eval_defs)
  have h3: "favorites (toggleFavorite True home) = [paris, lyon]"
    by (simp add: eval_defs)
  from favorites_invariant [OF h1 h2] h1 h2 h3 show ?thesis
    by simp
qed

subsection \<open>C2: the hourly series\<close>

text \<open>
  A response whose temperature array is shorter than its time array is stored with
  two times and one temperature.
\<close>

theorem hourly_lengths_differ:
  "step (JsonForecast 1 short_forecast True) answered =
     Some (weather_json 1 lyon short_forecast True answered) \<and>
   map_option hourly (weather (weather_json 1 lyon short_forecast True answered)) =
     Some (Some short_hourly) \<and>
   length (time short_hourly) = 2 \<and> length (temperature_2m short_hourly) = 1"
  by (simp add: eval_defs short_forecast_def short_hourly_def)

text \<open>
  C2, as amended. For every successful weather fetch, the stored times are the first
  min(24, length of the upstream time array) upstream times, exactly that many, and
  the stored temperatures and humidities are the prefixes of their upstream arrays of
  at most that many entries (so all three are index-aligned with the upstream
  arrays); the three stored sequences have equal length when the upstream temperature
  and humidity arrays have at least min(24, length of the upstream time array)
  entries, as they have when the three upstream arrays are equally long.
\<close>

theorem hourly_truncated:
  assumes "step (JsonForecast i d a) s = Some s'"
    and "data_hourly d = Some h" and "data_current_weather d = Some cur"
  shows "map_option hourly (weather s') = Some (Some (hourlySlice h)) \<and>
         time (hourlySlice h) = take (min 24 (length (time h))) (time h) \<and>
         length (time (hourlySlice h)) = min 24 (length (time h)) \<and>
         temperature_2m (hourlySlice h) = take (min 24 (length (time h))) (temperature_2m h) \<and>
         relativehumidity_2m (hourlySlice h) =
           take (min 24 (length (time h))) (relativehumidity_2m h) \<and>
         (min 24 (length (time h)) \<le> length (temperature_2m h) \<and>
          min 24 (length (time h)) \<le> length (relativehumidity_2m h) \<longrightarrow>
            length (temperature_2m (hourlySlice h)) = length (time (hourlySlice h)) \<and>
            length (relativehumidity_2m (hourlySlice h)) = length (time (hourlySlice h)))"
proof -
  from step_cases [OF assms(1)] obtain city where "s' = weather_json i city d a s"
    by auto
  then have "map_option hourly (weather s') = Some (Some (hourlySlice h))"
    using assms(2,3) by (simp add: weather_json_def weather_finally_def settle_def Let_def)
  then show ?thesis
    by (simp add: hourlySlice_def Let_def)
qed

theorem hourly_truncated_witness:
  "step (JsonForecast 1 long_forecast True) answered =
     Some (weather_json 1 lyon long_forecast True answered) \<and>
   map_option hourly (weather (weather_json 1 lyon long_forecast True answered)) =
     Some (Some (hourlySlice long_hourly)) \<and>
   length (time long_hourly) = 25 \<and>
   length (time (hourlySlice long_hourly)) = 24 \<and>
   length (temperature_2m (hourlySlice long_hourly)) = 24 \<and>
   length (relativehumidity_2m (hourlySlice long_hourly)) = 24"
proof -
  have h1: "step (JsonForecast 1 long_forecast True) answered =
              Some (weather_json 1 lyon long_forecast True answered)"
    by (simp add: eval_defs)
  have h2: "data_hourly long_forecast = Some long_hourly"
    and h3: "data_current_weather long_forecast = Some sunny"
    by (simp_all add: long_forecast_def)
  have h4: "length (time long_hourly) = 25" "length (temperature_2m long_hourly) = 25"
    "length (relativehumidity_2m long_hourly) = 25"
    by (simp_all add: long_hourly_def)
  from hourly_truncated [OF h1 h2 h3] h1 h4 show ?thesis
    by simp
qed

subsection \<open>C3: toggling a favorite\<close>

text \<open>
  When \<open>localStorage.setItem\<close> throws, the new list is in the state and not in the
  store.
\<close>

theorem favorites_write_refused:
  "favorites (toggleFavorite False home) = [paris, lyon] \<and>
   stored_favorites (toggleFavorite False home) = Json [lyon]"
  by (simp add: eval_defs)

text \<open>
  C3, as amended. For every selected city and every favorites list: if the list
  contains entries equal to the city under the (name, latitude, longitude) triple,
  toggling removes them and leaves all other entries unchanged in order; if it
  contains no such entry, toggling prepends the city and truncates the result to the
  first 20 entries; in both cases the resulting list becomes the favorites list, and
  it is written to persistent storage unless the write throws, in which case the
  stored value stays as it was.
\<close>

theorem toggle_spec:
  assumes "selectedCity s = Some sel"
  shows "favorites (toggleFavorite accepted s) =
           (if list_ex (same_city sel) (favorites s)
            then filter (\<lambda>c. \<not> same_city sel c) (favorites s)
            else take 20 (sel # favorites s)) \<and>
         stored_favorites (toggleFavorite accepted s) =
           (if accepted then Json (favorites (toggleFavorite accepted s))
            else stored_favorites s)"
  using assms by (simp add: toggleFavorite_def hasFavorited_def saveFavorites_def Let_def)

theorem toggle_spec_witness:
  "selectedCity home = Some paris \<and>
   favorites home = [lyon] \<and>
   favorites (toggleFavorite True home) = [paris, lyon] \<and>
   stored_favorites (toggleFavorite True home) = Json [paris, lyon] \<and>
   selectedCity (toggleFavorite True home) = Some paris \<and>
   favorites (toggleFavorite True (toggleFavorite True home)) = [lyon] \<and>
   stored_favorites (toggleFavorite True (toggleFavorite True home)) = Json [lyon]"
proof -
  have h1: "selectedCity home = Some paris" and h2: "favorites home = [lyon]"
    by (simp_all add: eval_defs)
  have ne: "\<not> same_city paris lyon" and eq: "same_city paris paris"
    by (simp_all add: eval_defs)
  have a: "favorites (toggleFavorite True home) = [paris, lyon]"
    and b: "stored_favorites (toggleFavorite True home) = Json [paris, lyon]"
    using toggle_spec [OF h1, of True] h2 ne by (simp_all add: list_ex_iff)
  have h3: "selectedCity (toggleFavorite True home) = Some paris"
    using h1 by (simp add: toggleFavorite_def saveFavorites_def Let_def)
  have "favorites (toggleFavorite True (toggleFavorite True home)) = [lyon] \<and>
        stored_favorites (toggleFavorite True (toggleFavorite True home)) = Json [lyon]"
    using toggle_spec [OF h3, of True] a ne eq by (simp add: list_ex_iff)
  with h1 h2 a b h3 show ?thesis
    by simp
qed

subsection \<open>C4: superseded requests\<close>

text \<open>
  C4. In every state reachable from mounting, for every request in flight: a step that
  issues a network call of the same kind aborts the controller of the request in
  flight; and whatever the platform later delivers to that request changes neither
  the suggestion list nor the weather (its \<open>finally\<close> block still clears the loading
  flag of its kind).
\<close>

theorem superseded_request:
  assumes "run tr (mount fav lc) = Some s" and "r \<in> set (pending s)"
    and "step ev s = Some s1" and "calls s1 = calls s @ [k]" and "same_kind k (rkind r)"
    and "run tr' s1 = Some s2" and "step ev' s2 = Some s3" and "target ev' = Some (rid r)"
  shows "rid r \<in> aborted s1 \<and> suggestions s3 = suggestions s2 \<and> weather s3 = weather s2"
proof -
  have "latest s"
    using run_latest [OF assms(1) mount_latest] .
  then have ab: "rid r \<in> aborted s1"
    using assms(2-5) by (rule issuing_step_aborts)
  then have "rid r \<in> aborted s2"
    using run_aborted_mono [OF assms(6)] by blast
  with aborted_delivery [OF assms(7,8)] ab show ?thesis
    by simp
qed

theorem superseded_request_witness:
  "\<lparr>rid = 0, rkind = Forecast paris, rphase = AwaitFetch\<rparr> \<in> set (pending home) \<and>
   step (SelectCity lyon True) home = Some switched \<and>
   calls switched = calls home @ [Forecast lyon] \<and>
   step (FetchReject 0 abort_reason) switched = Some (weather_rejected 0 abort_reason switched) \<and>
   0 \<in> aborted switched \<and>
   suggestions (weather_rejected 0 abort_reason switched) = suggestions switched \<and>
   weather (weather_rejected 0 abort_reason switched) = weather switched \<and>
   \<lparr>rid = 0, rkind = Geocoding (lit ''Pa''), rphase = AwaitFetch\<rparr> \<in> set (pending typed) \<and>
   run [QueryChange (lit ''Par''), Tick 300, TimerFire 3, FetchResolve 1 True,
        JsonGeocoding 1 \<lparr>results = Some [paris]\<rparr>] typed =
     Some (suggest_json 1 \<lparr>results = Some [paris]\<rparr> (suggest_response 1 True retyped)) \<and>
   suggestions (suggest_json 1 \<lparr>results = Some [paris]\<rparr> (suggest_response 1 True retyped)) =
     [paris] \<and>
   0 \<in> aborted retyped \<and>
   suggestions
     (suggest_rejected 0 abort_reason
        (suggest_json 1 \<lparr>results = Some [paris]\<rparr> (suggest_response 1 True retyped))) =
     [paris]"
proof -
  have h1: "run [] (mount (Json [lyon]) (Json paris)) = Some home"
    by (simp add: home_def)
  have h2: "\<lparr>rid = 0, rkind = Forecast paris, rphase = AwaitFetch\<rparr> \<in> set (pending home)"
    by (simp add: eval_defs)
  have h3: "step (SelectCity lyon True) home = Some switched"
    by (simp add: eval_defs)
  have h4: "calls switched = calls home @ [Forecast lyon]"
    by (simp add: eval_defs)
  have h5: "same_kind (Forecast lyon)
              (rkind \<lparr>rid = 0, rkind = Forecast paris, rphase = AwaitFetch\<rparr>)"
    by simp
  have h6: "run [] switched = Some switched"
    by simp
  have h7: "step (FetchReject 0 abort_reason) switched =
              Some (weather_rejected 0 abort_reason switched)"
    by (simp add: eval_defs)
  have h8: "target (FetchReject 0 abort_reason) =
              Some (rid \<lparr>rid = 0, rkind = Forecast paris, rphase = AwaitFetch\<rparr>)"
    by (simp add: target_def)
  note a = superseded_request [OF h1 h2 h3 h4 h5 h6 h7 h8]
  let ?found = "suggest_json 1 \<lparr>results = Some [paris]\<rparr> (suggest_response 1 True retyped)"
  let ?typing = "[QueryChange (lit ''P''), Tick 100, QueryChange (lit ''Pa''), Tick 300,
                  TimerFire 2, QueryChange (lit ''Par''), Tick 300]"
  have g1: "run ?typing (mount Missing Missing) =
              Some ((onQueryChange (lit ''Par'') typed)\<lparr>clock := 700\<rparr>)"
    by (simp add: eval_defs)
  have g2: "\<lparr>rid = 0, rkind = Geocoding (lit ''Pa''), rphase = AwaitFetch\<rparr> \<in>
              set (pending ((onQueryChange (lit ''Par'') typed)\<lparr>clock := 700\<rparr>))"
    and g2': "\<lparr>rid = 0, rkind = Geocoding (lit ''Pa''), rphase = AwaitFetch\<rparr> \<in>
              set (pending typed)"
    by (simp_all add: eval_defs)
  have g3: "step (TimerFire 3) ((onQueryChange (lit ''Par'') typed)\<lparr>clock := 700\<rparr>) =
              Some retyped"
    by (simp add: eval_defs)
  have g4: "calls retyped =
              calls ((onQueryChange (lit ''Par'') typed)\<lparr>clock := 700\<rparr>) @
              [Geocoding (lit ''Par'')]"
    by (simp add: eval_defs)
  have g5: "same_kind (Geocoding (lit ''Par''))
              (rkind \<lparr>rid = 0, rkind = Geocoding (lit ''Pa''), rphase = AwaitFetch\<rparr>)"
    by simp
  have g6: "run [FetchResolve 1 True, JsonGeocoding 1 \<lparr>results = Some [paris]\<rparr>] retyped =
              Some ?found"
    by (simp add: eval_defs)
  have g7: "step (FetchReject 0 abort_reason) ?found =
              Some (suggest_rejected 0 abort_reason ?found)"
    by (simp add: eval_defs)
  have g8: "target (FetchReject 0 abort_reason) =
              Some (rid \<lparr>rid = 0, rkind = Geocoding (lit ''Pa''), rphase = AwaitFetch\<rparr>)"
    by (simp add: target_def)
  have g9: "suggestions ?found = [paris]"
    by (simp add: eval_defs)
  have g10: "run [QueryChange (lit ''Par''), Tick 300, TimerFire 3, FetchResolve 1 True,
                  JsonGeocoding 1 \<lparr>results = Some [paris]\<rparr>] typed = Some ?found"
    by (simp add: eval_defs)
  note b = superseded_request [OF g1 g2 g3 g4 g5 g6 g7 g8]
  from a b h2 h3 h4 h7 g2' g9 g10 show ?thesis
    by simp
qed

subsection \<open>C5: the persisted last city\<close>

text \<open>
  The fetch for Lyon succeeds and \<open>localStorage.setItem\<close> throws: the weather is set
  and the stored last city is still Paris.
\<close>

theorem last_city_write_refused:
  "run [SelectCity lyon True, FetchResolve 1 True, JsonForecast 1 long_forecast False] home =
     Some (weather_json 1 lyon long_forecast False answered) \<and>
   weather (weather_json 1 lyon long_forecast False answered) \<noteq> None \<and>
   stored_lastCity (weather_json 1 lyon long_forecast False answered) = Json paris"
  by (simp add: eval_defs long_forecast_def)

text \<open>
  C5, as amended. The persisted last-selected city changes only when a weather fetch
  succeeds: on every successful fetch the weather state is set and the city is
  written to the last-city storage key, unless that write throws, in which case the
  stored value stays as it was; every other step, among them every failed or
  cancelled fetch, leaves the stored last-selected city unchanged.
\<close>

theorem last_city_persisted:
  assumes "step ev s = Some s'"
  shows "(ev = JsonForecast i d a \<and> awaiting i AwaitJson s = Some r \<and> rkind r = Forecast city \<and>
          data_hourly d \<noteq> None \<and> data_current_weather d \<noteq> None \<longrightarrow>
            weather s' \<noteq> None \<and>
            stored_lastCity s' = (if a then Json city else stored_lastCity s)) \<and>
         ((\<forall>j e b. ev = JsonForecast j e b \<longrightarrow>
             \<not> b \<or> data_hourly e = None \<or> data_current_weather e = None) \<longrightarrow>
            stored_lastCity s' = stored_lastCity s)"
proof -
  have store: "stored_lastCity (weather_json j c e b t) =
      (if b \<and> data_hourly e \<noteq> None \<and> data_current_weather e \<noteq> None then Json c
       else stored_lastCity t)" for j c e b t
    by (simp add: weather_json_def weather_finally_def weather_catch_def settle_def Let_def
        split: option.split)
  have set: "data_hourly e \<noteq> None \<Longrightarrow> data_current_weather e \<noteq> None \<Longrightarrow>
      weather (weather_json j c e b t) \<noteq> None" for j c e b t
    by (auto simp: weather_json_def weather_finally_def settle_def Let_def)
  from step_cases [OF assms] show ?thesis
    by (elim disjE exE conjE) (auto simp: stored_lastCity_frame store set)
qed

theorem last_city_persisted_witness:
  "step (JsonForecast 1 long_forecast True) answered =
     Some (weather_json 1 lyon long_forecast True answered) \<and>
   stored_lastCity answered = Json paris \<and>
   weather (weather_json 1 lyon long_forecast True answered) \<noteq> None \<and>
   stored_lastCity (weather_json 1 lyon long_forecast True answered) = Json lyon \<and>
   step (JsonReject 1 abort_reason) answered = Some (weather_rejected 1 abort_reason answered) \<and>
   stored_lastCity (weather_rejected 1 abort_reason answered) = Json paris"
proof -
  have h1: "step (JsonForecast 1 long_forecast True) answered =
              Some (weather_json 1 lyon long_forecast True answered)"
    by (simp add: eval_defs)
  have h2: "awaiting 1 AwaitJson answered =
              Some \<lparr>rid = 1, rkind = Forecast lyon, rphase = AwaitJson\<rparr>"
    by (simp add: eval_defs)
  have h3: "data_hourly long_forecast \<noteq> None" "data_current_weather long_forecast \<noteq> None"
    by (simp_all add: long_forecast_def)
  have h4: "stored_lastCity answered = Json paris"
    by (simp add: eval_defs)
  have h5: "step (JsonReject 1 abort_reason) answered =
              Some (weather_rejected 1 abort_reason answered)"
    by (simp add: eval_defs)
  from last_city_persisted [OF h1, of 1 long_forecast True
      "\<lparr>rid = 1, rkind = Forecast lyon, rphase = AwaitJson\<rparr>" lyon] h2 h3
  have a: "weather (weather_json 1 lyon long_forecast True answered) \<noteq> None \<and>
           stored_lastCity (weather_json 1 lyon long_forecast True answered) = Json lyon"
    by simp
  from last_city_persisted [OF h5] h4
  have b: "stored_lastCity (weather_rejected 1 abort_reason answered) = Json paris"
    by simp
  from h1 h4 h5 a b show ?thesis
    by simp
qed

subsection \<open>C6: failures\<close>

text \<open>
  C6. For every failure of a suggestion fetch or a weather fetch (a rejected promise,
  a response that is not ok, a body without the properties read, a name that cannot be
  encoded): if the error is an abort error, the error message is left as it was; for
  any other error it becomes the message of that operation; and whenever the
  operation ends, by failure or by success, the loading flag of its kind is cleared.
\<close>

theorem failure_handling:
  "error (suggest_rejected i e s) = (if isAbortError e then error s else Some search_failed) \<and>
   loadingSuggest (suggest_rejected i e s) = False \<and>
   error (weather_rejected i e s) = (if isAbortError e then error s else Some weather_failed) \<and>
   loading (weather_rejected i e s) = False \<and>
   suggest_response i False s = suggest_rejected i http_error s \<and>
   weather_response i False s = weather_rejected i http_error s \<and>
   weather_json i city (d\<lparr>data_hourly := None\<rparr>) acc s = weather_rejected i type_error s \<and>
   weather_json i city (d\<lparr>data_current_weather := None\<rparr>) acc s =
     weather_rejected i type_error s \<and>
   error (fetchSuggestions nm s) =
     (if trim nm \<noteq> [] \<and> \<not> encodable nm then Some search_failed else error s) \<and>
   loadingSuggest (fetchSuggestions nm s) =
     (if trim nm = [] then loadingSuggest s else encodable nm) \<and>
   isAbortError abort_reason \<and>
   \<not> isAbortError http_error \<and> \<not> isAbortError type_error \<and> \<not> isAbortError uri_error \<and>
   loadingSuggest (suggest_json i g s) = False \<and>
   loading (weather_json i city d acc s) = False"
  by (simp add: suggest_rejected_def weather_rejected_def suggest_catch_def weather_catch_def
      suggest_finally_def weather_finally_def settle_def suggest_response_def
      weather_response_def weather_json_def http_error_def type_error_def uri_error_def
      abort_reason_def lit_def suggest_json_def fetchSuggestions_def abort_def issue_def
      Let_def split: option.split)

subsection \<open>C7: start-up\<close>

text \<open>
  With a malformed favorites value, a well-formed stored last city is not restored and
  no weather fetch is made.
\<close>

theorem malformed_favorites_skip_city:
  "selectedCity (mount Malformed (Json paris)) = None \<and>
   calls (mount Malformed (Json paris)) = []"
  by (simp add: eval_defs)

text \<open>
  C7, as amended. When each of the two stored values is missing, empty, malformed
  JSON or JSON of the type the program expects under its key, a missing value or
  malformed JSON does not crash the initialization: the component is mounted. A
  missing or empty value under a key is treated as nothing stored for that key.
  Malformed JSON under the favorites key ends the whole restore: favorites stay
  empty and the last-selected city is not read, even if it is stored well-formed.
  Malformed JSON under the last-city key leaves no city selected and the favorites as
  restored. Favorites default to empty, and whenever a last-selected city is restored,
  exactly one weather fetch, for that city, is triggered; otherwise none.
\<close>

theorem startup_restore:
  "startup (map_item cities_json fav) (map_item city_json lc) = Mounted (mount fav lc) \<and>
   favorites (mount fav lc) = (case fav of Json xs \<Rightarrow> xs | _ \<Rightarrow> []) \<and>
   selectedCity (mount fav lc) =
     (case fav of
        Malformed \<Rightarrow> None
      | _ \<Rightarrow> (case lc of Json c \<Rightarrow> Some c | _ \<Rightarrow> None)) \<and>
   calls (mount fav lc) =
     (case selectedCity (mount fav lc) of None \<Rightarrow> [] | Some c \<Rightarrow> [Forecast c]) \<and>
   map rkind (pending (mount fav lc)) = calls (mount fav lc)"
proof -
  have "startup (map_item cities_json fav) (map_item city_json lc) = Mounted (mount fav lc)"
    by (simp add: startup_typed mount_unfold)
  moreover have
    "favorites (mount fav lc) = (case fav of Json xs \<Rightarrow> xs | _ \<Rightarrow> []) \<and>
     selectedCity (mount fav lc) =
       (case fav of
          Malformed \<Rightarrow> None
        | _ \<Rightarrow> (case lc of Json c \<Rightarrow> Some c | _ \<Rightarrow> None)) \<and>
     calls (mount fav lc) =
       (case selectedCity (mount fav lc) of None \<Rightarrow> [] | Some c \<Rightarrow> [Forecast c]) \<and>
     map rkind (pending (mount fav lc)) = calls (mount fav lc)"
    by (cases fav; cases lc)
       (simp_all add: mount_unfold boot_def selectedCity_effect_def fetchWeather_def
          abort_def issue_def Let_def)
  ultimately show ?thesis
    by simp
qed

theorem startup_restore_witness:
  "startup Malformed (Json (city_json paris)) = Mounted (mount Malformed (Json paris)) \<and>
   favorites (mount Malformed (Json paris)) = [] \<and>
   selectedCity (mount Malformed (Json paris)) = None \<and>
   calls (mount Malformed (Json paris)) = [] \<and>
   startup (Json (cities_json [lyon])) Malformed = Mounted (mount (Json [lyon]) Malformed) \<and>
   favorites (mount (Json [lyon]) Malformed) = [lyon] \<and>
   selectedCity (mount (Json [lyon]) Malformed) = None \<and>
   startup Missing (Json (city_json paris)) = Mounted (mount Missing (Json paris)) \<and>
   selectedCity (mount Missing (Json paris)) = Some paris \<and>
   calls (mount Missing (Json paris)) = [Forecast paris]"
  using startup_restore [of Malformed "Json paris"] startup_restore [of "Json [lyon]" Malformed]
    startup_restore [of Missing "Json paris"]
  by simp

subsection \<open>C8: the debounce\<close>

text \<open>
  C8. In every state reachable from mounting, a keystroke leaves exactly one timer
  armed, its own, due 300 time units later: the timer armed before is cancelled. And
  for every sequence of keystrokes in which each comes less than 300 time units after
  the one before, with any other events in between and after, the geocoding calls
  made from the first keystroke on are none or a single one, for the text of the last
  keystroke.
\<close>

theorem debounce_last_only:
  assumes "run tr0 (mount fav lc) = Some s0"
    and "run (QueryChange v # tr) s0 = Some s1"
    and "fast 0 tr"
  shows "(searches (calls s1) = searches (calls s0) \<or>
          searches (calls s1) = searches (calls s0) @ [last_query v tr]) \<and>
         timers (onQueryChange v s0) =
           [\<lparr>handle = Suc (handles s0), due = clock s0 + 300, arg = v\<rparr>]"
proof -
  have ot: "one_timer s0"
    using run_one_timer [OF assms(1) mount_one_timer] .
  from assms(2) have r: "run tr (onQueryChange v s0) = Some s1"
    by simp
  have ot1: "one_timer (onQueryChange v s0)"
    using step_one_timer [of "QueryChange v" s0] ot by simp
  have "armed (onQueryChange v s0) 0 v"
    using one_timer_onQueryChange [OF ot, of v] ot1 by (simp add: armed_def clock_frame)
  from burst [OF r assms(3) this] one_timer_onQueryChange [OF ot, of v]
  show ?thesis by (simp add: calls_frame)
qed

theorem debounce_last_only_witness:
  "run (QueryChange (lit ''P'') #
          [Tick 100, QueryChange (lit ''Pa''), Tick 300, TimerFire 2])
     (mount Missing Missing) = Some typed \<and>
   fast 0 [Tick 100, QueryChange (lit ''Pa''), Tick 300, TimerFire 2] \<and>
   last_query (lit ''P'') [Tick 100, QueryChange (lit ''Pa''), Tick 300, TimerFire 2] =
     lit ''Pa'' \<and>
   searches (calls (mount Missing Missing)) = [] \<and>
   searches (calls typed) = [lit ''Pa''] \<and>
   timers (onQueryChange (lit ''P'') (mount Missing Missing)) =
     [\<lparr>handle = 1, due = 300, arg = lit ''P''\<rparr>]"
proof -
  have h1: "run [] (mount Missing Missing) = Some (mount Missing Missing)"
    by simp
  have h2: "run (QueryChange (lit ''P'') #
                   [Tick 100, QueryChange (lit ''Pa''), Tick 300, TimerFire 2])
              (mount Missing Missing) = Some typed"
    by (simp add: eval_defs)
  have h3: "fast 0 [Tick 100, QueryChange (lit ''Pa''), Tick 300, TimerFire 2]"
    by simp
  have h4: "searches (calls typed) = [lit ''Pa'']"
    "searches (calls (mount Missing Missing)) = []"
    "handles (mount Missing Missing) = 0" "clock (mount Missing Missing) = 0"
    by (simp_all add: eval_defs)
  from debounce_last_only [OF h1 h2 h3] h2 h3 h4 show ?thesis
    by simp
qed

subsection \<open>C9: blank queries\<close>

text \<open>
  C9. For every query string consisting only of whitespace (the empty string
  included), \<open>fetchSuggestions\<close> changes nothing but the suggestion list, which it
  empties: no network call is made, no request is in flight that was not before, and
  the error message and the suggestion loading flag are what they were.
\<close>

theorem blank_query:
  assumes "\<forall>c \<in> set nm. white_space c"
  shows "fetchSuggestions nm s = s\<lparr>suggestions := []\<rparr> \<and>
         suggestions (fetchSuggestions nm s) = [] \<and>
         calls (fetchSuggestions nm s) = calls s \<and>
         pending (fetchSuggestions nm s) = pending s \<and>
         error (fetchSuggestions nm s) = error s \<and>
         loadingSuggest (fetchSuggestions nm s) = loadingSuggest s"
  using assms by (simp add: fetchSuggestions_def trim_empty_iff)

theorem blank_query_witness:
  "white_space 0x20 \<and> white_space 0x9 \<and> white_space 0x3000 \<and>
   fetchSuggestions [0x20, 0x9, 0x3000] home = home\<lparr>suggestions := []\<rparr> \<and>
   calls (fetchSuggestions [0x20, 0x9, 0x3000] home) = calls home \<and>
   fetchSuggestions [] home = home\<lparr>suggestions := []\<rparr>"
proof -
  have h1: "white_space 0x20" "white_space 0x9" "white_space 0x3000"
    by (simp_all add: white_space_def)
  then have h2: "\<forall>c \<in> set [0x20, 0x9, 0x3000]. white_space c"
    by simp
  have h3: "\<forall>c \<in> set ([] :: js_string). white_space c"
    by simp
  from blank_query [OF h2, of home] blank_query [OF h3, of home] h1 show ?thesis
    by simp
qed

subsection \<open>C10: toggling twice\<close>

text \<open>
  C10. For every favorites list with fewer than 20 entries that contains no entry
  equal (by the name/latitude/longitude triple) to the selected city, toggling
  favorite twice for that city returns the favorites list to its original value; when
  the list has exactly 20 entries, the double toggle drops the original last entry
  instead, so the result differs from the original list.
\<close>

theorem toggle_twice:
  assumes "selectedCity s = Some sel" and "\<not> hasFavorited s"
  shows "(length (favorites s) < 20 \<longrightarrow>
            favorites (toggleFavorite b (toggleFavorite a s)) = favorites s) \<and>
         (length (favorites s) = 20 \<longrightarrow>
            favorites (toggleFavorite b (toggleFavorite a s)) = butlast (favorites s) \<and>
            favorites (toggleFavorite b (toggleFavorite a s)) \<noteq> favorites s)"
proof -
  let ?fs = "favorites s"
  have none: "filter (\<lambda>c. \<not> same_city sel c) ?fs = ?fs"
    using assms by (auto simp: hasFavorited_def list_ex_iff filter_id_conv)
  have self: "same_city sel sel" by (simp add: same_city_def)
  have one: "favorites (toggleFavorite a s) = take 20 (sel # ?fs)"
    and sel1: "selectedCity (toggleFavorite a s) = Some sel"
    using assms by (simp_all add: toggleFavorite_def saveFavorites_def Let_def)
  have has: "hasFavorited (toggleFavorite a s)"
    using self by (simp add: hasFavorited_def sel1 one)
  have two: "favorites (toggleFavorite b (toggleFavorite a s)) =
               filter (\<lambda>c. \<not> same_city sel c) (take 20 (sel # ?fs))"
    using has sel1 one by (simp add: toggleFavorite_def saveFavorites_def Let_def)
  have tk: "take 20 (sel # ?fs) = sel # take 19 ?fs"
    by (simp add: take_Cons')
  have flt: "filter (\<lambda>c. \<not> same_city sel c) (take 19 ?fs) = take 19 ?fs"
    using none by (metis filter_id_conv in_set_takeD)
  have res: "favorites (toggleFavorite b (toggleFavorite a s)) = take 19 ?fs"
    using two tk flt self by simp
  show ?thesis
  proof (intro conjI impI)
    assume "length ?fs < 20"
    then show "favorites (toggleFavorite b (toggleFavorite a s)) = ?fs"
      using res by simp
  next
    assume l: "length ?fs = 20"
    then show "favorites (toggleFavorite b (toggleFavorite a s)) = butlast ?fs"
      using res by (simp add: butlast_conv_take)
    show "favorites (toggleFavorite b (toggleFavorite a s)) \<noteq> ?fs"
    proof
      assume "favorites (toggleFavorite b (toggleFavorite a s)) = ?fs"
      then have "length (take 19 ?fs) = length ?fs" using res by simp
      then show False using l by simp
    qed
  qed
qed

theorem toggle_twice_witness:
  "selectedCity home = Some paris \<and> \<not> hasFavorited home \<and> favorites home = [lyon] \<and>
   favorites (toggleFavorite True (toggleFavorite True home)) = [lyon] \<and>
   selectedCity (mount (Json twenty) (Json lyon)) = Some lyon \<and>
   \<not> hasFavorited (mount (Json twenty) (Json lyon)) \<and>
   favorites (mount (Json twenty) (Json lyon)) = twenty \<and> length twenty = 20 \<and>
   favorites (toggleFavorite True (toggleFavorite True (mount (Json twenty) (Json lyon)))) =
     butlast twenty \<and>
   favorites (toggleFavorite True (toggleFavorite True (mount (Json twenty) (Json lyon)))) \<noteq>
     twenty"
proof -
  have h1: "selectedCity home = Some paris" and h2: "\<not> hasFavorited home"
    and h3: "favorites home = [lyon]"
    by (simp_all add: eval_defs)
  have k1: "selectedCity (mount (Json twenty) (Json lyon)) = Some lyon"
    and k2: "\<not> hasFavorited (mount (Json twenty) (Json lyon))"
    and k3: "favorites (mount (Json twenty) (Json lyon)) = twenty"
    by (simp_all add: eval_defs twenty_def)
  have k4: "length twenty = 20"
    by (simp add: twenty_def)
  from toggle_twice [OF h1 h2, of True True] h3
  have a: "favorites (toggleFavorite True (toggleFavorite True home)) = [lyon]"
    by simp
  note t = toggle_twice [OF k1 k2, of True True, unfolded k3]
  from t k4
  have c: "favorites (toggleFavorite True (toggleFavorite True (mount (Json twenty) (Json lyon)))) =
             butlast twenty \<and>
           favorites (toggleFavorite True (toggleFavorite True (mount (Json twenty) (Json lyon)))) \<noteq>
             twenty"
    by blast
  from a c h1 h2 h3 k1 k2 k3 k4 show ?thesis
    by blast
qed

end
